theory Spec2Isabelle
  imports Complex_Main "HOL-Library.AList" "HOL-Library.Sublist"
begin

section \<open>Python values as the services see them\<close>

text \<open>
  Every payload that travels through the debate service is the result of \<open>json.loads\<close>
  or a dictionary literal of the source, so a value is one of Python's JSON types.
  A \<open>str\<close> is the list of its characters (code points below 256); a \<open>dict\<close> is an
  association list in insertion order with distinct keys; a \<open>float\<close> is the rational it
  denotes (the non-finite floats are not represented).
\<close>

datatype json =
    JNull
  | JBool bool
  | JInt int
  | JFloat rat
  | JStr string
  | JList "json list"
  | JObj "(string \<times> json) list"

type_synonym pydict = "(string \<times> json) list"

text \<open>The exceptions the modelled code can raise or catch.\<close>

datatype exn =
    ProviderError      \<comment> \<open>an external call raised: network, timeout, API error\<close>
  | AttributeError     \<comment> \<open>\<open>x.get\<close>, \<open>x.strip\<close>, ... on a value without that method\<close>
  | TypeError          \<comment> \<open>iterating, slicing or joining a value of the wrong type\<close>
  | DatabaseError      \<comment> \<open>a Supabase call raised\<close>

text \<open>\<open>bool(v)\<close>, as \<open>if v:\<close> and \<open>not v\<close> evaluate it.\<close>

fun truthy :: "json \<Rightarrow> bool" where
  "truthy JNull = False"
| "truthy (JBool b) = b"
| "truthy (JInt i) = (i \<noteq> 0)"
| "truthy (JFloat r) = (r \<noteq> 0)"
| "truthy (JStr s) = (s \<noteq> [])"
| "truthy (JList xs) = (xs \<noteq> [])"
| "truthy (JObj kvs) = (kvs \<noteq> [])"

text \<open>\<open>d.get(k, default)\<close> on a \<open>dict\<close>.\<close>

definition dict_get :: "pydict \<Rightarrow> string \<Rightarrow> json \<Rightarrow> json" where
  "dict_get d k dflt = (case map_of d k of Some v \<Rightarrow> v | None \<Rightarrow> dflt)"

text \<open>\<open>v.get(k, default)\<close> on any value: only a \<open>dict\<close> has the method.\<close>

fun py_get :: "json \<Rightarrow> string \<Rightarrow> json \<Rightarrow> exn + json" where
  "py_get (JObj d) k dflt = Inr (dict_get d k dflt)"
| "py_get _ k dflt = Inl AttributeError"

text \<open>\<open>for x in v\<close>: a list gives its elements, a string its characters, a dict its keys.\<close>

fun py_iter :: "json \<Rightarrow> exn + json list" where
  "py_iter (JList xs) = Inr xs"
| "py_iter (JStr s) = Inr (map (\<lambda>c. JStr [c]) s)"
| "py_iter (JObj d) = Inr (map (\<lambda>kv. JStr (fst kv)) d)"
| "py_iter _ = Inl TypeError"

text \<open>\<open>v[:n]\<close>: lists and strings are sliced, everything else raises.\<close>

fun py_slice :: "nat \<Rightarrow> json \<Rightarrow> exn + json" where
  "py_slice n (JList xs) = Inr (JList (take n xs))"
| "py_slice n (JStr s) = Inr (JStr (take n s))"
| "py_slice n _ = Inl TypeError"

text \<open>\<open>sep.join(v)\<close>: every item of the iterable must be a \<open>str\<close>.\<close>

fun join_strs :: "string \<Rightarrow> string list \<Rightarrow> string" where
  "join_strs sep [] = []"
| "join_strs sep [s] = s"
| "join_strs sep (s # t # ss) = s @ sep @ join_strs sep (t # ss)"

fun all_strs :: "json list \<Rightarrow> exn + string list" where
  "all_strs [] = Inr []"
| "all_strs (JStr s # vs) = (case all_strs vs of Inl e \<Rightarrow> Inl e | Inr ss \<Rightarrow> Inr (s # ss))"
| "all_strs (_ # vs) = Inl TypeError"

definition py_join :: "string \<Rightarrow> json \<Rightarrow> exn + string" where
  "py_join sep v =
     (case py_iter v of
        Inl e \<Rightarrow> Inl e
      | Inr items \<Rightarrow> (case all_strs items of Inl e \<Rightarrow> Inl e | Inr ss \<Rightarrow> Inr (join_strs sep ss)))"

text \<open>
  The two library functions the services call on arbitrary values are parameters of the
  model: \<open>json.loads\<close> (\<open>None\<close> when it raises) and \<open>str\<close> on a value that is not a
  string, as an f-string formats it.
\<close>

record pylib =
  json_loads :: "string \<Rightarrow> json option"
  py_str :: "json \<Rightarrow> string"

definition py_format :: "pylib \<Rightarrow> json \<Rightarrow> string" where
  "py_format L v = (case v of JStr s \<Rightarrow> s | _ \<Rightarrow> py_str L v)"


section \<open>Response Normalizer (debate\_service.\_parse\_json)\<close>

text \<open>\<open>str.strip()\<close>: the characters below 256 for which \<open>str.isspace\<close> holds.\<close>

definition is_space :: "char \<Rightarrow> bool" where
  "is_space c = (let n = of_char c :: nat in
     (9 \<le> n \<and> n \<le> 13) \<or> (28 \<le> n \<and> n \<le> 32) \<or> n = 133 \<or> n = 160)"

definition strip :: "string \<Rightarrow> string" where
  "strip s = rev (dropWhile is_space (rev (dropWhile is_space s)))"

definition fence :: string where
  "fence = replicate 3 (CHR 0x60)"

definition newline :: char where
  "newline = CHR 0x0A"

text \<open>
  \<open>re.sub(p + r"\n?", "", s)\<close> for a literal, non-empty \<open>p\<close>: every occurrence of
  \<open>p\<close>, scanning from the left, is removed together with one newline that follows it.
\<close>

definition drop_newline :: "string \<Rightarrow> string" where
  "drop_newline s = (case s of [] \<Rightarrow> [] | c # cs \<Rightarrow> if c = newline then cs else c # cs)"

function sub_fence :: "string \<Rightarrow> string \<Rightarrow> string" where
  "sub_fence p [] = []"
| "sub_fence p (c # cs) =
     (if p \<noteq> [] \<and> prefix p (c # cs)
      then sub_fence p (drop_newline (drop (length p) (c # cs)))
      else c # sub_fence p cs)"
  by pat_completeness auto
termination
proof (relation "measure (\<lambda>(p, s). length s)")
  fix p :: string and c cs
  assume "p \<noteq> [] \<and> prefix p (c # cs)"
  then have "length (drop (length p) (c # cs)) < length (c # cs)"
    by (cases p) simp_all
  moreover have "length (drop_newline t) \<le> length t" for t
    by (cases t) (simp_all add: drop_newline_def)
  ultimately have "length (drop_newline (drop (length p) (c # cs))) < length (c # cs)"
    by (rule less_le_trans [OF le_less_trans, OF _ _ order_refl, rotated])
  then show "((p, drop_newline (drop (length p) (c # cs))), (p, c # cs))
          \<in> measure (\<lambda>(p, s). length s)"
    by simp
qed simp_all

text \<open>
  \<open>re.search(r'\{.*\}', text, re.DOTALL)\<close>: the match starts at the first opening
  brace and, the star being greedy, ends at the last closing brace after it.
\<close>

definition search_braces :: "string \<Rightarrow> string option" where
  "search_braces t =
     (case dropWhile (\<lambda>c. c \<noteq> CHR ''{'') t of
        [] \<Rightarrow> None
      | b # body \<Rightarrow>
          if CHR ''}'' \<in> set body
          then Some (b # rev (dropWhile (\<lambda>c. c \<noteq> CHR ''}'') (rev body)))
          else None)"

definition clean_text :: "string \<Rightarrow> string" where
  "clean_text text = strip (sub_fence fence (sub_fence (fence @ ''json'') (strip text)))"

definition parse_marker :: "string \<Rightarrow> json" where
  "parse_marker text = JObj [(''raw'', JStr (take 500 text)), (''parse_error'', JBool True)]"

definition parse_json :: "pylib \<Rightarrow> string \<Rightarrow> json" where
  "parse_json L text0 =
     (let text = clean_text text0 in
      case json_loads L text of
        Some v \<Rightarrow> v
      | None \<Rightarrow>
          (case search_braces text of
             Some m \<Rightarrow> (case json_loads L m of Some v \<Rightarrow> v | None \<Rightarrow> parse_marker text)
           | None \<Rightarrow> parse_marker text))"

subsection \<open>A model of the library functions, for evaluating examples\<close>

text \<open>
  \<open>json_loads_frag\<close> follows the grammar of Python's \<open>json\<close> decoder on the fragment
  without floats and without \<open>\\u\<close> escapes: whitespace is space, tab, newline and
  carriage return; a number is an optional minus and \<open>0\<close> or a digit string without a
  leading zero; a repeated key keeps its first position and its last value; anything left
  after the value but whitespace is an error. A text outside the fragment (a number with
  a fraction or an exponent, a \<open>\\u\<close> escape, \<open>NaN\<close>, \<open>Infinity\<close>) is not
  covered: the general theorems below hold for every \<open>json_loads\<close>, and this model is
  evaluated on texts of the fragment only. The first argument of the scanners bounds the
  number of nested calls; the length of the text is enough.
\<close>

definition is_json_ws :: "char \<Rightarrow> bool" where
  "is_json_ws c = (c = CHR '' '' \<or> c = CHR 0x09 \<or> c = CHR 0x0A \<or> c = CHR 0x0D)"

definition skip_ws :: "string \<Rightarrow> string" where
  "skip_ws s = dropWhile is_json_ws s"

definition is_digit :: "char \<Rightarrow> bool" where
  "is_digit c = (let n = of_char c :: nat in 48 \<le> n \<and> n \<le> 57)"

definition digits_value :: "string \<Rightarrow> int" where
  "digits_value ds = foldl (\<lambda>a c. 10 * a + (int (of_char c) - 48)) 0 ds"

definition starts_fraction :: "string \<Rightarrow> bool" where
  "starts_fraction r =
     (case r of
        c # d # _ \<Rightarrow>
          (c = CHR ''.'' \<and> is_digit d) \<or>
          ((c = CHR ''e'' \<or> c = CHR ''E'') \<and>
             (is_digit d \<or> ((d = CHR ''+'' \<or> d = CHR ''-'') \<and>
                (case r of _ # _ # e # _ \<Rightarrow> is_digit e | _ \<Rightarrow> False))))
      | _ \<Rightarrow> False)"

definition scan_number :: "string \<Rightarrow> (json \<times> string) option" where
  "scan_number s =
     (let neg = (s \<noteq> [] \<and> hd s = CHR ''-'');
          body = (if neg then tl s else s);
          ds = (if body \<noteq> [] \<and> hd body = CHR ''0'' then ''0'' else takeWhile is_digit body);
          rest = drop (length ds) body
      in if ds = [] \<or> starts_fraction rest then None
         else Some (JInt (if neg then - digits_value ds else digits_value ds), rest))"

definition unescape :: "char \<Rightarrow> char option" where
  "unescape e =
     (if e = CHR 0x22 \<or> e = CHR 0x5C \<or> e = CHR ''/'' then Some e
      else if e = CHR ''b'' then Some (CHR 0x08)
      else if e = CHR ''f'' then Some (CHR 0x0C)
      else if e = CHR ''n'' then Some (CHR 0x0A)
      else if e = CHR ''r'' then Some (CHR 0x0D)
      else if e = CHR ''t'' then Some (CHR 0x09)
      else None)"

fun scan_string :: "string \<Rightarrow> string \<Rightarrow> (string \<times> string) option" where
  "scan_string acc [] = None"
| "scan_string acc [c] = (if c = CHR 0x22 then Some (rev acc, []) else None)"
| "scan_string acc (c # e # cs) =
     (if c = CHR 0x22 then Some (rev acc, e # cs)
      else if c = CHR 0x5C then
        (case unescape e of None \<Rightarrow> None | Some x \<Rightarrow> scan_string (x # acc) cs)
      else if (of_char c :: nat) < 32 then None
      else scan_string (c # acc) (e # cs))"

fun scan_value :: "nat \<Rightarrow> string \<Rightarrow> (json \<times> string) option"
and scan_items :: "nat \<Rightarrow> json list \<Rightarrow> string \<Rightarrow> (json \<times> string) option"
and scan_pairs :: "nat \<Rightarrow> pydict \<Rightarrow> string \<Rightarrow> (json \<times> string) option" where
  "scan_value 0 s = None"
| "scan_value (Suc n) s =
     (case s of
        [] \<Rightarrow> None
      | c # cs \<Rightarrow>
          if c = CHR 0x22 then
            (case scan_string [] cs of None \<Rightarrow> None | Some (x, r) \<Rightarrow> Some (JStr x, r))
          else if c = CHR ''{'' then
            (let r = skip_ws cs in
             if r \<noteq> [] \<and> hd r = CHR ''}'' then Some (JObj [], tl r) else scan_pairs n [] r)
          else if c = CHR ''['' then
            (let r = skip_ws cs in
             if r \<noteq> [] \<and> hd r = CHR '']'' then Some (JList [], tl r) else scan_items n [] r)
          else if prefix ''null'' s then Some (JNull, drop 4 s)
          else if prefix ''true'' s then Some (JBool True, drop 4 s)
          else if prefix ''false'' s then Some (JBool False, drop 5 s)
          else scan_number s)"
| "scan_items 0 acc s = None"
| "scan_items (Suc n) acc s =
     (case scan_value n s of
        None \<Rightarrow> None
      | Some (v, r) \<Rightarrow>
          (case skip_ws r of
             [] \<Rightarrow> None
           | d # r' \<Rightarrow>
               if d = CHR '','' then scan_items n (acc @ [v]) (skip_ws r')
               else if d = CHR '']'' then Some (JList (acc @ [v]), r')
               else None))"
| "scan_pairs 0 acc s = None"
| "scan_pairs (Suc n) acc s =
     (case s of
        [] \<Rightarrow> None
      | q # cs \<Rightarrow>
          if q \<noteq> CHR 0x22 then None
          else
            (case scan_string [] cs of
               None \<Rightarrow> None
             | Some (k, r) \<Rightarrow>
                 (case skip_ws r of
                    [] \<Rightarrow> None
                  | col # r1 \<Rightarrow>
                      if col \<noteq> CHR '':'' then None
                      else
                        (case scan_value n (skip_ws r1) of
                           None \<Rightarrow> None
                         | Some (v, r2) \<Rightarrow>
                             (case skip_ws r2 of
                                [] \<Rightarrow> None
                              | d # r3 \<Rightarrow>
                                  if d = CHR '','' then
                                    scan_pairs n (AList.update k v acc) (skip_ws r3)
                                  else if d = CHR ''}'' then
                                    Some (JObj (AList.update k v acc), r3)
                                  else None)))))"

definition json_loads_frag :: "string \<Rightarrow> json option" where
  "json_loads_frag s =
     (case scan_value (Suc (length s)) (skip_ws s) of
        None \<Rightarrow> None
      | Some (v, r) \<Rightarrow> if skip_ws r = [] then Some v else None)"


function show_nat :: "nat \<Rightarrow> string" where
  "show_nat n =
     (if n < 10 then [char_of (48 + n)] else show_nat (n div 10) @ [char_of (48 + n mod 10)])"
  by pat_completeness auto
termination
  by (relation "measure id") auto

text \<open>
  \<open>str\<close> on the scalars; the text of a float, a list or a dict is left unspecified.
\<close>

fun py_str_frag :: "json \<Rightarrow> string" where
  "py_str_frag JNull = ''None''"
| "py_str_frag (JBool b) = (if b then ''True'' else ''False'')"
| "py_str_frag (JInt i) = (if i < 0 then CHR ''-'' # show_nat (nat (- i)) else show_nat (nat i))"
| "py_str_frag (JStr s) = s"
| "py_str_frag v = undefined"

definition pylib_frag :: pylib where
  "pylib_frag = \<lparr>json_loads = json_loads_frag, py_str = py_str_frag\<rparr>"


section \<open>Multi-agent debate (debate\_service)\<close>

text \<open>
  The three optional credentials of \<open>config.Settings\<close> that the Critic round reads;
  an unset credential is the empty string.
\<close>

record settings =
  OPENAI_API_KEY :: string
  GROQ_API_KEY :: string
  TOGETHER_API_KEY :: string

text \<open>
  What an external provider did when it was called. A Gemini call either raises (the
  call itself or reading \<open>resp.text\<close>) or yields the reply text. A chat-completion call
  over HTTP either raises (network, timeout) or yields a status code together with the
  message content, which is \<open>None\<close> when
  \<open>r.json()["choices"][0]["message"]["content"]\<close> raises or is not a string. Each
  provider is called at most once in a debate, so one outcome per provider describes a
  run; the prompts only feed these calls and are not modelled.
\<close>

datatype gen_reply = GenRaises | GenText string

datatype http_reply = HttpRaises | HttpResponse nat "string option"

record providers =
  presenter_reply :: gen_reply
  gpt4o_reply :: http_reply
  groq_reply :: http_reply
  together_reply :: http_reply
  flash_reply :: gen_reply
  decider_reply :: gen_reply

datatype provider_id = GPT4oMini | GroqLlama | TogetherMixtral | GeminiFlash

text \<open>
  The dictionary an agent function returns. \<open>final_hindi_text\<close> is present for the
  Decider only, \<open>error\<close> on the fallback paths only.
\<close>

record agent_result =
  agent :: string
  model :: string
  atype :: string
  agent_output :: json
  confidence :: json
  final_hindi_text :: "json option"
  error :: "exn option"

subsection \<open>Presenter\<close>

fun select_urgent :: "json list \<Rightarrow> exn + pydict list" where
  "select_urgent [] = Inr []"
| "select_urgent (JObj p # ps) =
     (case select_urgent ps of
        Inl e \<Rightarrow> Inl e
      | Inr us \<Rightarrow>
          Inr (if dict_get p ''stock_level'' JNull = JStr ''critical''
                  \<or> dict_get p ''stock_level'' JNull = JStr ''low''
               then p # us else us))"
| "select_urgent (_ # ps) = Inl AttributeError"

definition restock_entry :: "pydict \<Rightarrow> json" where
  "restock_entry p =
     JObj [(''product'', dict_get p ''name'' (dict_get p ''product_name'' (JStr ''Unknown''))),
           (''current_stock'', dict_get p ''stock_level'' JNull),
           (''units_to_order'', JInt 6),
           (''reason'', JStr ''Low stock''),
           (''estimated_cost_inr'', JInt 150)]"

text \<open>
  The em dash of the source's literal is beyond the characters modelled and is written
  as its three UTF-8 bytes, as is the rupee sign further down.
\<close>

definition fallback_presenter :: "pydict \<Rightarrow> exn + json" where
  "fallback_presenter vision_data =
     (case py_iter (dict_get vision_data ''products'' (JList [])) of
        Inl e \<Rightarrow> Inl e
      | Inr products \<Rightarrow>
          (case select_urgent products of
             Inl e \<Rightarrow> Inl e
           | Inr urgents \<Rightarrow>
               Inr (JObj [(''priority_restocks'', JList (map restock_entry (take 5 urgents))),
                          (''confidence_score'', JInt 58),
                          (''reasoning'',
                             JStr (''Fallback '' @ [CHR 0xE2, CHR 0x80, CHR 0x94]
                                   @ '' check Gemini API key''))])))"

text \<open>The body of the \<open>try\<close> of \<open>run_presenter\<close>, then the function with its handler.\<close>

definition presenter_attempt :: "pylib \<Rightarrow> providers \<Rightarrow> exn + agent_result" where
  "presenter_attempt L P =
     (case presenter_reply P of
        GenRaises \<Rightarrow> Inl ProviderError
      | GenText text \<Rightarrow>
          (let parsed = parse_json L text in
           case py_get parsed ''confidence_score'' (JInt 82) of
             Inl e \<Rightarrow> Inl e
           | Inr c \<Rightarrow>
               Inr \<lparr>agent = ''Gemini 1.5 Pro'', model = ''gemini-1.5-pro'', atype = ''presenter'',
                    agent_output = parsed, confidence = c, final_hindi_text = None, error = None\<rparr>))"

definition run_presenter :: "pylib \<Rightarrow> providers \<Rightarrow> pydict \<Rightarrow> pydict \<Rightarrow> exn + agent_result" where
  "run_presenter L P vision_data store_info =
     (case presenter_attempt L P of
        Inr r \<Rightarrow> Inr r
      | Inl e \<Rightarrow>
          (case fallback_presenter vision_data of
             Inl e' \<Rightarrow> Inl e'
           | Inr fb \<Rightarrow>
               Inr \<lparr>agent = ''Gemini 1.5 Pro'', model = ''gemini-1.5-pro'', atype = ''presenter'',
                    agent_output = fb, confidence = JInt 60, final_hindi_text = None,
                    error = Some e\<rparr>))"

subsection \<open>Critic candidates\<close>

text \<open>
  The three chat-completion critics differ in endpoint, credential, names and default
  confidence only. After the credential check everything stands in a \<open>try\<close> whose
  handler prints and falls through to \<open>return None\<close>. Each function is paired with the
  list of providers it called.
\<close>

definition chat_critic :: "pylib \<Rightarrow> string \<Rightarrow> string \<Rightarrow> int \<Rightarrow> http_reply \<Rightarrow> agent_result option" where
  "chat_critic L a m dflt reply =
     (case reply of
        HttpRaises \<Rightarrow> None
      | HttpResponse code content \<Rightarrow>
          if code = 200 then
            (case content of
               None \<Rightarrow> None
             | Some text \<Rightarrow>
                 (let parsed = parse_json L text in
                  case py_get parsed ''confidence_score'' (JInt dflt) of
                    Inl e \<Rightarrow> None
                  | Inr c \<Rightarrow>
                      Some \<lparr>agent = a, model = m, atype = ''critic'', agent_output = parsed,
                            confidence = c, final_hindi_text = None, error = None\<rparr>))
          else None)"

definition run_critic_gpt4o :: "pylib \<Rightarrow> settings \<Rightarrow> providers \<Rightarrow> agent_result option \<times> provider_id list" where
  "run_critic_gpt4o L S P =
     (if OPENAI_API_KEY S = [] then (None, [])
      else (chat_critic L ''GPT-4o Mini'' ''gpt-4o-mini'' 80 (gpt4o_reply P), [GPT4oMini]))"

definition run_critic_groq :: "pylib \<Rightarrow> settings \<Rightarrow> providers \<Rightarrow> agent_result option \<times> provider_id list" where
  "run_critic_groq L S P =
     (if GROQ_API_KEY S = [] then (None, [])
      else (chat_critic L ''Groq LLaMA-3.1-70B'' ''llama-3.1-70b-versatile'' 76 (groq_reply P),
            [GroqLlama]))"

definition run_critic_together :: "pylib \<Rightarrow> settings \<Rightarrow> providers \<Rightarrow> agent_result option \<times> provider_id list" where
  "run_critic_together L S P =
     (if TOGETHER_API_KEY S = [] then (None, [])
      else (chat_critic L ''Together Mixtral-8x7B'' ''mixtral-8x7b-instruct'' 74 (together_reply P),
            [TogetherMixtral]))"

definition flash_attempt :: "pylib \<Rightarrow> providers \<Rightarrow> exn + agent_result" where
  "flash_attempt L P =
     (case flash_reply P of
        GenRaises \<Rightarrow> Inl ProviderError
      | GenText text \<Rightarrow>
          (let parsed = parse_json L text in
           case py_get parsed ''confidence_score'' (JInt 70) of
             Inl e \<Rightarrow> Inl e
           | Inr c \<Rightarrow>
               Inr \<lparr>agent = ''Gemini Flash (Critic Fallback)'', model = ''gemini-1.5-flash'',
                    atype = ''critic'', agent_output = parsed, confidence = c,
                    final_hindi_text = None, error = None\<rparr>))"

definition default_critic :: "exn \<Rightarrow> agent_result" where
  "default_critic e =
     \<lparr>agent = ''Gemini Flash (Critic Fallback)'', model = ''gemini-1.5-flash'', atype = ''critic'',
      agent_output = JObj [(''accepted'', JList []), (''challenged'', JList []), (''rejected'', JList []),
                     (''minimum_viable_restock'', JList []), (''risk_level'', JStr ''medium''),
                     (''confidence_score'', JInt 55),
                     (''critique_summary'', JStr ''Fallback critique'')],
      confidence = JInt 55, final_hindi_text = None, error = Some e\<rparr>"

definition run_critic_gemini_fallback :: "pylib \<Rightarrow> providers \<Rightarrow> agent_result \<times> provider_id list" where
  "run_critic_gemini_fallback L P =
     (case flash_attempt L P of Inr r \<Rightarrow> (r, [GeminiFlash]) | Inl e \<Rightarrow> (default_critic e, [GeminiFlash]))"

subsection \<open>Decider\<close>

definition fallback_decider :: "pylib \<Rightarrow> pydict \<Rightarrow> pydict \<Rightarrow> exn + pydict" where
  "fallback_decider L vision_data store_info =
     (let owner = dict_get store_info ''owner_name'' (JStr ''bhai'') in
      case py_slice 3 (dict_get vision_data ''top_restock_urgent'' (JList [])) of
        Inl e \<Rightarrow> Inl e
      | Inr firsts \<Rightarrow>
          (case py_join '', '' firsts of
             Inl e \<Rightarrow> Inl e
           | Inr joined \<Rightarrow>
               (let items = (if joined = [] then ''kuch zaruri items'' else joined) in
                Inr [(''final_action_plan'', JList []),
                     (''total_spend_today_inr'', JInt 0),
                     (''confidence_score'', JInt 60),
                     (''final_hindi_text'',
                        JStr (''Namaskar '' @ py_format L owner @ ''! Aapki shelf mein '' @ items
                              @ '' ka stock khatam ho raha hai. Aaj hi mangaiye!'')),
                     (''summary_english'',
                        JStr ''Restock urgent items identified by vision analysis.'')])))"

definition decider_attempt :: "pylib \<Rightarrow> providers \<Rightarrow> exn + agent_result" where
  "decider_attempt L P =
     (case decider_reply P of
        GenRaises \<Rightarrow> Inl ProviderError
      | GenText text \<Rightarrow>
          (let parsed = parse_json L text in
           case py_get parsed ''final_hindi_text'' (JStr []) of
             Inl e \<Rightarrow> Inl e
           | Inr h \<Rightarrow>
               (case py_get parsed ''confidence_score'' (JInt 90) of
                  Inl e \<Rightarrow> Inl e
                | Inr c \<Rightarrow>
                    Inr \<lparr>agent = ''Gemini 1.5 Pro'', model = ''gemini-1.5-pro'',
                         atype = ''decider'', agent_output = parsed, confidence = c,
                         final_hindi_text = Some h, error = None\<rparr>)))"

definition run_decider :: "pylib \<Rightarrow> providers \<Rightarrow> pydict \<Rightarrow> pydict \<Rightarrow> exn + agent_result" where
  "run_decider L P vision_data store_info =
     (case decider_attempt L P of
        Inr r \<Rightarrow> Inr r
      | Inl e \<Rightarrow>
          (case fallback_decider L vision_data store_info of
             Inl e' \<Rightarrow> Inl e'
           | Inr fb \<Rightarrow>
               Inr \<lparr>agent = ''Gemini 1.5 Pro'', model = ''gemini-1.5-pro'', atype = ''decider'',
                    agent_output = JObj fb, confidence = JInt 60,
                    final_hindi_text = Some (dict_get fb ''final_hindi_text'' (JStr [])),
                    error = Some e\<rparr>))"

subsection \<open>The orchestrator\<close>

text \<open>
  One entry of \<open>rounds\<close>. Its \<open>output\<close> is \<open>json.dumps(x)\<close> when \<open>x\<close> is a dict and
  \<open>str(x)\<close> otherwise; the rendering is kept symbolic.
\<close>

datatype rendered = JsonDumps json | PyStr json

record round =
  r_agent :: string
  r_model :: string
  r_type :: string
  r_output :: rendered
  r_reasoning :: string
  r_confidence_score :: json

definition render_output :: "json \<Rightarrow> rendered" where
  "render_output x = (case x of JObj d \<Rightarrow> JsonDumps x | _ \<Rightarrow> PyStr x)"

definition make_round :: "agent_result \<Rightarrow> string \<Rightarrow> string \<Rightarrow> round" where
  "make_round a ty why =
     \<lparr>r_agent = agent a, r_model = model a, r_type = ty, r_output = render_output (agent_output a),
      r_reasoning = why, r_confidence_score = confidence a\<rparr>"

record debate_result =
  rounds :: "round list"
  final_recommendation :: json
  presenter :: json
  critic :: json
  decider :: json
  agents_used :: "string list"
  critic_model_used :: string

text \<open>
  Round 2 of \<open>run_ai_debate\<close> (the four \<open>if\<close> statements on \<open>critic\<close>): the result and
  the providers called, in the order of the calls. An agent dictionary is never empty,
  so \<open>not critic\<close> holds exactly when \<open>critic\<close> is \<open>None\<close>.
\<close>

definition critic_round :: "pylib \<Rightarrow> settings \<Rightarrow> providers \<Rightarrow> agent_result \<times> provider_id list" where
  "critic_round L S P =
     (let (critic1, calls1) =
            (if OPENAI_API_KEY S \<noteq> [] then run_critic_gpt4o L S P else (None, []));
          (critic2, calls2) =
            (if critic1 = None \<and> GROQ_API_KEY S \<noteq> [] then run_critic_groq L S P
             else (critic1, []));
          (critic3, calls3) =
            (if critic2 = None \<and> TOGETHER_API_KEY S \<noteq> [] then run_critic_together L S P
             else (critic2, []))
      in case critic3 of
           None \<Rightarrow>
             (let (critic4, calls4) = run_critic_gemini_fallback L P
              in (critic4, calls1 @ calls2 @ calls3 @ calls4))
         | Some c \<Rightarrow> (c, calls1 @ calls2 @ calls3))"

text \<open>The last-resort sentence of \<open>run_ai_debate\<close>.\<close>

definition last_resort :: "pylib \<Rightarrow> pydict \<Rightarrow> pydict \<Rightarrow> exn + string" where
  "last_resort L vision_data store_info =
     (let urgent = dict_get vision_data ''top_restock_urgent'' (JList []) in
      case (if truthy urgent
            then (case py_slice 3 urgent of Inl e \<Rightarrow> Inl e | Inr firsts \<Rightarrow> py_join '', '' firsts)
            else Inr ''kuch zaruri items'') of
        Inl e \<Rightarrow> Inl e
      | Inr items \<Rightarrow>
          (let owner = dict_get store_info ''owner_name'' (JStr ''bhai'') in
           Inr (''Namaskar '' @ py_format L owner @ ''! ShelfScan AI ne aapki shelf check ki. Aaj ''
                @ items
                @ '' zaroor mangaiye '' @ [CHR 0xE2, CHR 0x80, CHR 0x94]
                @ '' stock bilkul khatam ho raha hai. Yeh restock karne se aapki daily kamai mein ''
                @ [CHR 0xE2, CHR 0x82, CHR 0xB9] @ ''200-500 ka fark padega!'')))"

definition final_hindi :: "pylib \<Rightarrow> agent_result \<Rightarrow> pydict \<Rightarrow> pydict \<Rightarrow> exn + json" where
  "final_hindi L d vision_data store_info =
     (let h0 = (case final_hindi_text d of Some h \<Rightarrow> h | None \<Rightarrow> JStr []);
          h1 = (if \<not> truthy h0
                then (case agent_output d of JObj od \<Rightarrow> dict_get od ''final_hindi_text'' (JStr [])
                      | _ \<Rightarrow> h0)
                else h0)
      in if \<not> truthy h1
         then (case last_resort L vision_data store_info of
                 Inl e \<Rightarrow> Inl e | Inr text \<Rightarrow> Inr (JStr text))
         else Inr h1)"

definition run_ai_debate :: "pylib \<Rightarrow> settings \<Rightarrow> providers \<Rightarrow> pydict \<Rightarrow> pydict \<Rightarrow> json \<Rightarrow> exn + debate_result" where
  "run_ai_debate L S P vision_data store_info pincode =
     (case run_presenter L P vision_data store_info of
        Inl e \<Rightarrow> Inl e
      | Inr p \<Rightarrow>
          (let c = fst (critic_round L S P) in
           case run_decider L P vision_data store_info of
             Inl e \<Rightarrow> Inl e
           | Inr d \<Rightarrow>
               (case final_hindi L d vision_data store_info of
                  Inl e \<Rightarrow> Inl e
                | Inr text \<Rightarrow>
                    Inr \<lparr>rounds =
                           [make_round p ''presenter'' ''Gemini 1.5 Pro vision-context analysis'',
                            make_round c ''critic'' ''Economic stress-test of Presenter's plan'',
                            make_round d ''decider''
                              ''Final synthesis of Presenter + Critic debate''],
                         final_recommendation = text,
                         presenter = agent_output p, critic = agent_output c, decider = agent_output d,
                         agents_used = [agent p, agent c, agent d],
                         critic_model_used = model c\<rparr>)))"



text \<open>The shape of the vision data that the prompt of the vision service asks for.\<close>

fun is_str :: "json \<Rightarrow> bool" where
  "is_str (JStr s) = True"
| "is_str _ = False"

fun is_dict :: "json \<Rightarrow> bool" where
  "is_dict (JObj d) = True"
| "is_dict _ = False"

definition products_shaped :: "pydict \<Rightarrow> bool" where
  "products_shaped vision_data =
     (case map_of vision_data ''products'' of
        None \<Rightarrow> True
      | Some (JList ps) \<Rightarrow> list_all is_dict ps
      | Some _ \<Rightarrow> False)"

definition urgent_shaped :: "pydict \<Rightarrow> bool" where
  "urgent_shaped vision_data =
     (case map_of vision_data ''top_restock_urgent'' of
        None \<Rightarrow> True
      | Some (JList xs) \<Rightarrow> list_all is_str xs
      | Some _ \<Rightarrow> False)"


text \<open>
  When a candidate fails: a chat-completion critic returns \<open>None\<close> when the call raises,
  the status is not 200, the content cannot be read, or the normalized reply is not a
  dict (so that \<open>parsed.get\<close> raises); the Gemini Flash attempt fails when the call
  raises or the normalized reply is not a dict.
\<close>

definition chat_fails :: "pylib \<Rightarrow> http_reply \<Rightarrow> bool" where
  "chat_fails L reply =
     (case reply of
        HttpRaises \<Rightarrow> True
      | HttpResponse code content \<Rightarrow>
          code \<noteq> 200 \<or> (case content of None \<Rightarrow> True | Some text \<Rightarrow> \<not> is_dict (parse_json L text)))"

definition gen_fails :: "pylib \<Rightarrow> gen_reply \<Rightarrow> bool" where
  "gen_fails L reply =
     (case reply of GenRaises \<Rightarrow> True | GenText text \<Rightarrow> \<not> is_dict (parse_json L text))"

subsection \<open>Example inputs\<close>

definition no_keys :: settings where
  "no_keys = \<lparr>OPENAI_API_KEY = [], GROQ_API_KEY = [], TOGETHER_API_KEY = []\<rparr>"

definition all_keys :: settings where
  "all_keys = \<lparr>OPENAI_API_KEY = ''sk-1'', GROQ_API_KEY = ''gsk-2'', TOGETHER_API_KEY = ''tg-3''\<rparr>"

definition all_down :: providers where
  "all_down = \<lparr>presenter_reply = GenRaises, gpt4o_reply = HttpRaises, groq_reply = HttpRaises,
                together_reply = HttpRaises, flash_reply = GenRaises, decider_reply = GenRaises\<rparr>"


definition salt_shelf :: pydict where
  "salt_shelf =
     [(''products'', JList [JObj [(''name'', JStr ''Tata Salt''), (''stock_level'', JStr ''critical'')]]),
      (''top_restock_urgent'', JList [JStr ''Tata Salt''])]"

definition ravi_store :: pydict where
  "ravi_store = [(''owner_name'', JStr ''Ravi''), (''pincode'', JStr ''110001'')]"


section \<open>Store registration (models.StoreRegister, main.register\_store)\<close>

text \<open>
  The request body. The optional fields of \<open>StoreRegister\<close> (address, store type,
  language, ...) have no validator and are only copied into the row; they are left out.
\<close>

record store_register =
  owner_name :: string
  whatsapp_number :: string
  store_name :: string
  city :: string
  pincode :: string

datatype value_error = InvalidPhone | InvalidPincode

text \<open>
  \<open>$\<close> without \<open>re.MULTILINE\<close> matches at the end of the string and also just before
  a newline that is the last character.
\<close>

definition at_dollar :: "string \<Rightarrow> bool" where
  "at_dollar r = (r = [] \<or> r = [newline])"

text \<open>\<open>re.match(r"^\d{6}$", v)\<close>\<close>

definition pincode_re :: "string \<Rightarrow> bool" where
  "pincode_re v = (length (take 6 v) = 6 \<and> list_all is_digit (take 6 v) \<and> at_dollar (drop 6 v))"

definition validate_pincode :: "string \<Rightarrow> value_error + string" where
  "validate_pincode v = (if pincode_re v then Inr v else Inl InvalidPincode)"

text \<open>\<open>re.match(r"^(\+91|91)?[6-9]\d{9}$", clean)\<close>: the optional prefix, with backtracking.\<close>

definition subscriber_re :: "string \<Rightarrow> bool" where
  "subscriber_re r =
     (length (take 10 r) = 10 \<and> hd r \<in> set ''6789'' \<and> list_all is_digit (take 10 r)
      \<and> at_dollar (drop 10 r))"

definition phone_re :: "string \<Rightarrow> bool" where
  "phone_re c =
     ((prefix ''+91'' c \<and> subscriber_re (drop 3 c))
      \<or> (prefix ''91'' c \<and> subscriber_re (drop 2 c))
      \<or> subscriber_re c)"

definition validate_phone :: "string \<Rightarrow> value_error + string" where
  "validate_phone v =
     (let clean = filter (\<lambda>c. \<not> (is_space c \<or> c = CHR ''-'' \<or> c = CHR ''('' \<or> c = CHR '')'')) v
      in if \<not> phone_re clean then Inl InvalidPhone
         else (let digits = filter is_digit clean
               in if length digits = 10 then Inr (''+91'' @ digits)
                  else if length digits = 12 \<and> prefix ''91'' digits then Inr (''+'' @ digits)
                  else Inr v))"

text \<open>
  Pydantic runs the validators field by field and collects the errors; the request
  reaches the handler only when there is none.
\<close>

definition validate_store_register :: "store_register \<Rightarrow> value_error list + store_register" where
  "validate_store_register d =
     (case (validate_phone (whatsapp_number d), validate_pincode (pincode d)) of
        (Inr w, Inr p) \<Rightarrow> Inr (d\<lparr>whatsapp_number := w, pincode := p\<rparr>)
      | (Inl e, Inr p) \<Rightarrow> Inl [e]
      | (Inr w, Inl e) \<Rightarrow> Inl [e]
      | (Inl e, Inl e') \<Rightarrow> Inl [e, e'])"

text \<open>The two collections the registration touches.\<close>

record store_row = store_register +
  store_id :: nat
  registered_at :: nat
  store_status :: string
  total_scans :: nat
  shelf_health_score :: nat

text \<open>
  \<open>round(a / b * 100, 1)\<close> is a float; it is kept as the two counts it is computed from.
\<close>

datatype pct = Round1 nat nat

record signals =
  total_products_scanned :: nat
  unique_products :: nat
  stockout_rate :: pct
  low_stock_rate :: pct
  top_stockouts :: "string list"

text \<open>
  A row of \<open>neighborhood_demand\<close>. The two list columns hold \<open>json.dumps\<close> of a value,
  which is kept as the value; \<open>demand_signals\<close> is \<open>None\<close> for the empty object that
  the registration writes.
\<close>

record neighborhood_row =
  nd_id :: nat
  nd_pincode :: string
  nd_city :: string
  week_start :: string
  total_stores_scanned :: nat
  top_categories :: json
  stockout_products :: json
  demand_signals :: "signals option"
  updated_at :: "nat option"
  created_at :: "nat option"

record database =
  stores :: "store_row list"
  neighborhood_demand :: "neighborhood_row list"

text \<open>The primary key the database gives to an inserted row.\<close>

definition fresh_id :: "nat list \<Rightarrow> nat" where
  "fresh_id ids = Suc (foldr max ids 0)"

datatype reg_call = SelectExistingStore | InsertStore | SelectNeighborhood | InsertNeighborhood

datatype reg_response = Http422 "value_error list" | Http409 | Http500 | Http200 store_row

text \<open>
  \<open>_init_neighborhood\<close>: everything stands in a \<open>try\<close> with a bare \<open>except: pass\<close>.
  \<open>raises\<close> tells which database calls raise; \<open>now\<close> is the clock in seconds and
  \<open>today\<close> its date as text.
\<close>

definition init_neighborhood :: "(reg_call \<Rightarrow> bool) \<Rightarrow> string \<Rightarrow> database \<Rightarrow> string \<Rightarrow> string \<Rightarrow> database" where
  "init_neighborhood raises today db pin cty =
     (if raises SelectNeighborhood then db
      else if filter (\<lambda>r. nd_pincode r = pin) (neighborhood_demand db) \<noteq> [] then db
      else if raises InsertNeighborhood then db
      else db\<lparr>neighborhood_demand := neighborhood_demand db @
             [\<lparr>nd_id = fresh_id (map nd_id (neighborhood_demand db)), nd_pincode = pin,
               nd_city = cty, week_start = today, total_stores_scanned = 1,
               top_categories = JList [], stockout_products = JList [],
               demand_signals = None, updated_at = None, created_at = None\<rparr>]\<rparr>)"

definition register_store :: "(reg_call \<Rightarrow> bool) \<Rightarrow> nat \<Rightarrow> string \<Rightarrow> database \<Rightarrow> store_register
    \<Rightarrow> reg_response \<times> database" where
  "register_store raises now today db d =
     (if raises SelectExistingStore then (Http500, db)
      else if filter (\<lambda>r. whatsapp_number r = whatsapp_number d) (stores db) \<noteq> []
        then (Http409, db)
      else if raises InsertStore then (Http500, db)
      else (let row = \<lparr>owner_name = owner_name d, whatsapp_number = whatsapp_number d,
                        store_name = store_name d, city = city d, pincode = pincode d,
                        store_id = fresh_id (map store_id (stores db)), registered_at = now,
                        store_status = ''active'', total_scans = 0, shelf_health_score = 0\<rparr>;
                db1 = db\<lparr>stores := stores db @ [row]\<rparr>
            in (Http200 row, init_neighborhood raises today db1 (pincode d) (city d))))"

text \<open>The endpoint: validation of the body, then the handler.\<close>

definition post_register :: "(reg_call \<Rightarrow> bool) \<Rightarrow> nat \<Rightarrow> string \<Rightarrow> database \<Rightarrow> store_register
    \<Rightarrow> reg_response \<times> database" where
  "post_register raises now today db d =
     (case validate_store_register d of
        Inl errs \<Rightarrow> (Http422 errs, db)
      | Inr d' \<Rightarrow> register_store raises now today db d')"

definition empty_db :: database where
  "empty_db = \<lparr>stores = [], neighborhood_demand = []\<rparr>"

definition no_fault :: "'c \<Rightarrow> bool" where
  "no_fault call = False"

definition ravi_request :: "string \<Rightarrow> store_register" where
  "ravi_request pin =
     \<lparr>owner_name = ''Ravi'', whatsapp_number = ''98765 43210'', store_name = ''Ravi Kirana'',
      city = ''Delhi'', pincode = pin\<rparr>"


section \<open>WhatsApp webhook (main.whatsapp\_webhook)\<close>

text \<open>
  The form of the inbound event. \<open>num_media\<close> is the value of
  \<open>int(form.get("NumMedia", 0))\<close>, \<open>None\<close> when \<open>int\<close> raises; the other fields are
  \<open>form.get\<close> with the empty string as default, \<open>media_content_type0\<close> with the
  default \<open>image/jpeg\<close> already filled in.
\<close>

record inbound =
  wa_from :: string
  num_media :: "int option"
  wa_body :: string
  media_url0 :: string
  media_content_type0 :: string

text \<open>\<open>s.replace(p, "")\<close> for a non-empty \<open>p\<close>.\<close>

function remove_all :: "string \<Rightarrow> string \<Rightarrow> string" where
  "remove_all p [] = []"
| "remove_all p (c # cs) =
     (if p \<noteq> [] \<and> prefix p (c # cs) then remove_all p (drop (length p) (c # cs))
      else c # remove_all p cs)"
  by pat_completeness auto
termination
proof (relation "measure (\<lambda>(p, s). length s)")
  fix p :: string and c cs
  assume "p \<noteq> [] \<and> prefix p (c # cs)"
  then show "((p, drop (length p) (c # cs)), (p, c # cs)) \<in> measure (\<lambda>(p, s). length s)"
    by (cases p) simp_all
qed simp_all

text \<open>\<open>str.lower()\<close> on the characters below 256.\<close>

definition lower_char :: "char \<Rightarrow> char" where
  "lower_char c =
     (let n = of_char c :: nat
      in if (65 \<le> n \<and> n \<le> 90) \<or> (192 \<le> n \<and> n \<le> 214) \<or> (216 \<le> n \<and> n \<le> 222)
         then char_of (n + 32) else c)"

definition greet_msgs :: "string list" where
  "greet_msgs = [''hi'', ''hello'', ''hey'', ''help'', ''start'', ''scan'', ''namaste'', ''namaskar'']"

text \<open>
  The TwiML bodies. The three replies to text events contain characters beyond those
  modelled and are kept as names; the acknowledgment is the text of
  \<open>twilio_service.build_processing_twiml\<close>.
\<close>

definition build_processing_twiml :: string where
  "build_processing_twiml =
     ''<?xml version=\"1.0\" encoding=\"UTF-8\"?>'' @ [newline]
     @ ''<Response>'' @ [newline]
     @ ''  <Message>'' @ [newline]
     @ ''    <Body>ShelfScan AI ne aapki shelf photo receive kar li! Analysis shuru ho raha hai... 30 seconds mein aapka report aayega.</Body>''
     @ [newline]
     @ ''  </Message>'' @ [newline]
     @ ''</Response>''"

datatype twiml = Greeting | PromptForImage | ImageNotReceived | Acknowledgment string

datatype webhook_response = XmlResponse twiml | UnhandledError

text \<open>
  What the synchronous path does besides computing: the external calls it waits for,
  and the tasks it hands to \<open>background_tasks\<close>, which run after the response is sent.
\<close>

datatype sync_call = InsertWhatsappMessage

datatype background_task = RunWhatsappPipeline string string string

record webhook_result =
  response :: webhook_response
  scheduled :: "background_task list"
  awaited :: "sync_call list"

text \<open>
  \<open>audit_raises\<close> tells whether the insert into \<open>whatsapp_messages\<close> raises; the
  handler swallows it.
\<close>

definition whatsapp_webhook :: "bool \<Rightarrow> inbound \<Rightarrow> webhook_result" where
  "whatsapp_webhook audit_raises f =
     (case num_media f of
        None \<Rightarrow> \<lparr>response = UnhandledError, scheduled = [], awaited = []\<rparr>
      | Some n \<Rightarrow>
          (let from_number = remove_all ''whatsapp:'' (wa_from f);
               body_text = map lower_char (strip (wa_body f));
               calls = [InsertWhatsappMessage]
           in if n = 0 then
                (if list_ex (\<lambda>w. sublist w body_text) greet_msgs \<or> body_text = []
                 then \<lparr>response = XmlResponse Greeting, scheduled = [], awaited = calls\<rparr>
                 else \<lparr>response = XmlResponse PromptForImage, scheduled = [], awaited = calls\<rparr>)
              else if media_url0 f = [] then
                \<lparr>response = XmlResponse ImageNotReceived, scheduled = [], awaited = calls\<rparr>
              else
                \<lparr>response = XmlResponse (Acknowledgment build_processing_twiml),
                 scheduled = [RunWhatsappPipeline from_number (media_url0 f)
                                (media_content_type0 f)],
                 awaited = calls\<rparr>))"

definition shelf_photo_event :: inbound where
  "shelf_photo_event =
     \<lparr>wa_from = ''whatsapp:+919876543210'', num_media = Some 1, wa_body = '''',
      media_url0 = ''https://api.twilio.com/2010-04-01/Accounts/AC1/Messages/MM1/Media/ME1'',
      media_content_type0 = ''image/jpeg''\<rparr>"


section \<open>Neighborhood aggregation (aggregation\_service.\_aggregate\_pincode)\<close>

text \<open>
  A row of \<open>detected_products\<close>, with the columns the job selects and the time of
  detection in seconds. \<open>category\<close> is \<open>None\<close> for a null column.
\<close>

record product_row =
  product_name :: string
  brand :: string
  category :: "string option"
  stock_level :: string
  pr_store_id :: nat
  detected_at :: nat

text \<open>
  \<open>Counter(xs).most_common(n)\<close>: the distinct items in the order of their first
  occurrence with their counts, sorted by falling count with ties left in that order,
  cut to \<open>n\<close>.
\<close>

definition counter :: "string list \<Rightarrow> (string \<times> nat) list" where
  "counter xs = map (\<lambda>x. (x, count_list xs x)) (rev (remdups (rev xs)))"

definition most_common :: "nat \<Rightarrow> (string \<times> nat) list \<Rightarrow> (string \<times> nat) list" where
  "most_common n c = take n (sort_key (\<lambda>kv. - int (snd kv)) c)"

definition seven_days :: nat where
  "seven_days = 7 * 24 * 60 * 60"

text \<open>The select on \<open>detected_products\<close>: the stores of the locality, the last seven days.\<close>

definition window_products :: "product_row list \<Rightarrow> nat \<Rightarrow> nat list \<Rightarrow> product_row list" where
  "window_products products now store_ids =
     filter (\<lambda>p. pr_store_id p \<in> set store_ids \<and> now - seven_days \<le> detected_at p) products"

text \<open>The aggregates of \<open>record\<close>, computed from the selected products.\<close>

definition stockout_counts :: "product_row list \<Rightarrow> (string \<times> nat) list" where
  "stockout_counts ps =
     most_common 10 (counter (map product_name (filter (\<lambda>p. stock_level p = ''critical'') ps)))"

definition category_counts :: "product_row list \<Rightarrow> (string \<times> nat) list" where
  "category_counts ps =
     most_common 8 (counter (concat (map (\<lambda>p. case category p of
                                           None \<Rightarrow> [] | Some c \<Rightarrow> if c = [] then [] else [c]) ps)))"

definition demand_signals_of :: "product_row list \<Rightarrow> signals" where
  "demand_signals_of ps =
     \<lparr>total_products_scanned = length ps,
      unique_products = length (remdups (map product_name ps)),
      stockout_rate = Round1 (length (filter (\<lambda>p. stock_level p = ''critical'') ps)) (length ps),
      low_stock_rate = Round1 (length (filter (\<lambda>p. stock_level p = ''low'') ps)) (length ps),
      top_stockouts = map fst (take 5 (stockout_counts ps))\<rparr>"

text \<open>\<open>update(record).eq("id", i)\<close>: the columns of \<open>record\<close> are set, \<open>created_at\<close> stays.\<close>

definition apply_record :: "product_row list \<Rightarrow> string \<Rightarrow> string \<Rightarrow> nat list \<Rightarrow> string \<Rightarrow> nat
    \<Rightarrow> neighborhood_row \<Rightarrow> neighborhood_row" where
  "apply_record ps pin cty store_ids wk now r =
     r\<lparr>nd_pincode := pin, nd_city := cty, week_start := wk,
       total_stores_scanned := length store_ids,
       top_categories :=
         JList (map (\<lambda>kv. JObj [(''category'', JStr (fst kv)), (''count'', JInt (int (snd kv)))])
                  (category_counts ps)),
       stockout_products :=
         JList (map (\<lambda>kv. JObj [(''product'', JStr (fst kv)),
                                 (''times_critical'', JInt (int (snd kv)))])
                  (stockout_counts ps)),
       demand_signals := Some (demand_signals_of ps),
       updated_at := Some now\<rparr>"

definition blank_row :: "nat \<Rightarrow> nat \<Rightarrow> neighborhood_row" where
  "blank_row i now =
     \<lparr>nd_id = i, nd_pincode = [], nd_city = [], week_start = [], total_stores_scanned = 0,
      top_categories = JNull, stockout_products = JNull, demand_signals = None,
      updated_at = None, created_at = Some now\<rparr>"

definition has_key :: "string \<Rightarrow> string \<Rightarrow> neighborhood_row \<Rightarrow> bool" where
  "has_key pin wk r = (nd_pincode r = pin \<and> week_start r = wk)"

datatype agg_call = SelectProducts | SelectExisting | WriteRow

text \<open>
  \<open>_aggregate_pincode\<close> on the table \<open>neighborhood_demand\<close>. The body stands in a
  \<open>try\<close> whose handler prints; the only write is the last statement, so a raising call
  leaves the table as it was.
\<close>

definition aggregate_pincode :: "(agg_call \<Rightarrow> bool) \<Rightarrow> nat \<Rightarrow> product_row list \<Rightarrow> string \<Rightarrow> string
    \<Rightarrow> nat list \<Rightarrow> string \<Rightarrow> neighborhood_row list \<Rightarrow> neighborhood_row list" where
  "aggregate_pincode raises now products pin cty store_ids wk table =
     (if raises SelectProducts then table
      else (let all_products = window_products products now store_ids
            in if all_products = [] then table
               else if raises SelectExisting then table
               else (case filter (has_key pin wk) table of
                       e # _ \<Rightarrow>
                         if raises WriteRow then table
                         else map (\<lambda>r. if nd_id r = nd_id e
                                        then apply_record all_products pin cty store_ids wk now r
                                        else r) table
                     | [] \<Rightarrow>
                         if raises WriteRow then table
                         else table @ [apply_record all_products pin cty store_ids wk now
                                         (blank_row (fresh_id (map nd_id table)) now)])))"

definition one_critical_salt :: "product_row list" where
  "one_critical_salt =
     [\<lparr>product_name = ''Tata Salt'', brand = ''Tata'', category = Some ''Staples'',
       stock_level = ''critical'', pr_store_id = 1, detected_at = 1767600000\<rparr>]"


section \<open>Double-precision arithmetic\<close>

text \<open>
  Python's \<open>float\<close> is an IEEE 754 binary64 number, and \<open>/\<close>, \<open>*\<close> and \<open>+\<close> round the
  exact result to the nearest such number, ties to even. A finite float is a rational,
  so the operations are modelled on \<open>rat\<close>: \<open>fl x\<close> is the double nearest to a
  non-negative \<open>x\<close> in the normal range (53 significant bits, exponent found by
  halving or doubling at most 1100 times); underflow and overflow do not occur for the
  values of the services.
\<close>

fun expo_up :: "nat \<Rightarrow> rat \<Rightarrow> int" where
  "expo_up 0 x = 0"
| "expo_up (Suc n) x = (if x < 2 then 0 else expo_up n (x / 2) + 1)"

fun expo_down :: "nat \<Rightarrow> rat \<Rightarrow> int" where
  "expo_down 0 x = 0"
| "expo_down (Suc n) x = (if 1 \<le> x then 0 else expo_down n (x * 2) - 1)"

definition emax :: nat where
  "emax = 1100"

definition expo :: "rat \<Rightarrow> int" where
  "expo x = (if 1 \<le> x then expo_up emax x else expo_down emax x)"

definition round_even :: "rat \<Rightarrow> int" where
  "round_even m =
     (let f = \<lfloor>m\<rfloor>; d = m - of_int f
      in if d < 1 / 2 then f else if 1 / 2 < d then f + 1 else if even f then f else f + 1)"

definition fl :: "rat \<Rightarrow> rat" where
  "fl x = (if x \<le> 0 then 0
           else (let q = 2 powi (expo x - 52) in of_int (round_even (x / q)) * q))"

text \<open>\<open>a / b\<close> on two \<open>int\<close>s (true division), \<open>a * b\<close> and \<open>a + b\<close> on floats.\<close>

definition fdiv :: "nat \<Rightarrow> nat \<Rightarrow> rat" where
  "fdiv a b = fl (of_nat a / of_nat b)"

definition fmul :: "rat \<Rightarrow> rat \<Rightarrow> rat" where
  "fmul a b = fl (a * b)"

definition fadd :: "rat \<Rightarrow> rat \<Rightarrow> rat" where
  "fadd a b = fl (a + b)"

text \<open>\<open>int(x)\<close> on a float truncates towards zero.\<close>

definition py_int :: "rat \<Rightarrow> int" where
  "py_int x = (if 0 \<le> x then \<lfloor>x\<rfloor> else \<lceil>x\<rceil>)"




section \<open>Scan pipeline (main.scan\_shelf)\<close>

subsection \<open>Health score (main.\_calculate\_health\_score)\<close>

text \<open>\<open>len(v)\<close>: lists, strings and dicts have a length, the other values raise.\<close>

fun py_len :: "json \<Rightarrow> exn + nat" where
  "py_len (JList xs) = Inr (length xs)"
| "py_len (JStr s) = Inr (length s)"
| "py_len (JObj d) = Inr (length d)"
| "py_len _ = Inl TypeError"

text \<open>
  The generator expressions call \<open>p.get\<close> on every item: the first item that is not a
  \<open>dict\<close> raises \<open>AttributeError\<close>.
\<close>

fun as_dicts :: "json list \<Rightarrow> exn + pydict list" where
  "as_dicts [] = Inr []"
| "as_dicts (JObj d # vs) = (case as_dicts vs of Inl e \<Rightarrow> Inl e | Inr ds \<Rightarrow> Inr (d # ds))"
| "as_dicts (_ # vs) = Inl AttributeError"

text \<open>\<open>p.get("stock_level") in ["ok", "overstocked"]\<close> and \<open>p.get("facing_correct", True)\<close>.\<close>

definition stock_ok :: "pydict \<Rightarrow> bool" where
  "stock_ok p = (let level = dict_get p ''stock_level'' JNull
                 in level = JStr ''ok'' \<or> level = JStr ''overstocked'')"

definition facing_correct :: "pydict \<Rightarrow> bool" where
  "facing_correct p = truthy (dict_get p ''facing_correct'' (JBool True))"

text \<open>
  \<open>score = int(((ok / total) * 70) + ((facing_ok / total) * 30))\<close> and
  \<open>min(100, max(0, score))\<close>.
\<close>

definition health_value :: "nat \<Rightarrow> nat \<Rightarrow> nat \<Rightarrow> int" where
  "health_value ok facing_ok n =
     (let score = py_int (fadd (fmul (fdiv ok n) 70) (fmul (fdiv facing_ok n) 30))
      in min 100 (max 0 score))"

definition calculate_health_score :: "pydict \<Rightarrow> exn + int" where
  "calculate_health_score vision_data =
     (let products = dict_get vision_data ''products'' (JList []) in
      if \<not> truthy products then Inr 0
      else
        case py_len products of
          Inl e \<Rightarrow> Inl e
        | Inr n \<Rightarrow>
            (case py_iter products of
               Inl e \<Rightarrow> Inl e
             | Inr items \<Rightarrow>
                 (case as_dicts items of
                    Inl e \<Rightarrow> Inl e
                  | Inr ps \<Rightarrow>
                      Inr (health_value (length (filter stock_ok ps))
                             (length (filter facing_correct ps)) n))))"


subsection \<open>Voice note (voice\_service.generate\_hindi\_voice)\<close>

text \<open>
  The two external calls of the voice stage: the text-to-speech request (it raises, or
  answers with a status code) and the upload of the audio (it raises, or gives the URL).
\<close>

datatype tts_reply = TtsRaises | TtsResponse nat

datatype upload_reply = UploadRaises | UploadUrl string

text \<open>\<open>s.split()\<close>: the maximal runs of characters that are not whitespace.\<close>

fun split_ws :: "string \<Rightarrow> string \<Rightarrow> string list" where
  "split_ws w [] = (if w = [] then [] else [w])"
| "split_ws w (c # cs) =
     (if is_space c then (if w = [] then split_ws [] cs else w # split_ws [] cs)
      else split_ws (w @ [c]) cs)"

definition estimated_seconds :: "nat \<Rightarrow> int" where
  "estimated_seconds word_count = max 5 (py_int (fmul (fdiv word_count 150) 60))"

text \<open>
  The whole body is inside \<open>try\<close>, and the handler returns \<open>("", 0)\<close>: a request that
  raises, a status other than 200, a text without \<open>split\<close> and an upload that raises
  all end there.
\<close>

definition generate_hindi_voice :: "tts_reply \<Rightarrow> upload_reply \<Rightarrow> json \<Rightarrow> string \<times> int" where
  "generate_hindi_voice reply upload hindi_text =
     (case reply of
        TtsRaises \<Rightarrow> ([], 0)
      | TtsResponse code \<Rightarrow>
          if code \<noteq> 200 then ([], 0)
          else
            (case hindi_text of
               JStr s \<Rightarrow>
                 (case upload of
                    UploadRaises \<Rightarrow> ([], 0)
                  | UploadUrl audio_url \<Rightarrow>
                      (audio_url, estimated_seconds (length (split_ws [] s))))
             | _ \<Rightarrow> ([], 0)))"

text \<open>The speech-synthesis stage fails: provider error, status other than 200, or upload failure.\<close>

fun voice_fails :: "tts_reply \<Rightarrow> upload_reply \<Rightarrow> bool" where
  "voice_fails TtsRaises upload = True"
| "voice_fails (TtsResponse code) upload = (code \<noteq> 200 \<or> upload = UploadRaises)"

subsection \<open>The endpoint\<close>

text \<open>
  The world a scan runs in: the library functions, the credentials and the providers of
  the debate, which database calls raise, the row of the store (if there is one), and
  the answers of the image upload, the vision analysis (\<open>None\<close> when it raises, else the
  dictionary it returns) and the voice stage.
\<close>

datatype scan_call =
    SelectStore | InsertScan | InsertProducts | InsertRound | InsertVoiceNote
  | UpdateScanCompleted | UpdateStore | UpdateScanFailed

record scan_world =
  lib :: pylib
  keys :: settings
  agents :: providers
  db_fault :: "scan_call \<Rightarrow> bool"
  store_found :: "pydict option"
  image_upload :: upload_reply
  vision :: "pydict option"
  tts :: tts_reply
  audio_upload :: upload_reply

datatype status = Processing | Completed | Failed

datatype scan_response = ScanOk | ScanNotFound | ScanError

text \<open>
  What a request leaves behind: the HTTP answer (200, 404 or 500), the values written to
  the \<open>status\<close> column of the scan's row, in the order of the writes, the \<open>audio_url\<close> and
  \<open>duration_seconds\<close> of the row inserted into \<open>voice_notes\<close>, and the \<open>voice_note_url\<close>
  written with the status \<open>completed\<close>.
\<close>

record scan_outcome =
  http :: scan_response
  status_writes :: "status list"
  voice_note :: "(string \<times> int) option"
  voice_note_url :: "string option"

text \<open>Step 4, second half: the detected products are saved when there are any.\<close>

definition save_products :: "(scan_call \<Rightarrow> bool) \<Rightarrow> pydict \<Rightarrow> exn + unit" where
  "save_products F vision_data =
     (let products = dict_get vision_data ''products'' JNull in
      if \<not> truthy products then Inr ()
      else
        case py_iter products of
          Inl e \<Rightarrow> Inl e
        | Inr items \<Rightarrow>
            (case as_dicts items of
               Inl e \<Rightarrow> Inl e
             | Inr ps \<Rightarrow> if F InsertProducts then Inl DatabaseError else Inr ()))"

text \<open>Step 5, second half: one insert for each round.\<close>

definition save_rounds :: "(scan_call \<Rightarrow> bool) \<Rightarrow> round list \<Rightarrow> exn + unit" where
  "save_rounds F rs = (if rs \<noteq> [] \<and> F InsertRound then Inl DatabaseError else Inr ())"

text \<open>
  Step 7: the health score and \<open>len(vision_data.get("products", []))\<close> are computed, then
  the scan's row is updated to \<open>completed\<close>.
\<close>

definition complete_scan :: "(scan_call \<Rightarrow> bool) \<Rightarrow> pydict \<Rightarrow> exn + int" where
  "complete_scan F vision_data =
     (case calculate_health_score vision_data of
        Inl e \<Rightarrow> Inl e
      | Inr health_score \<Rightarrow>
          (case py_len (dict_get vision_data ''products'' (JList [])) of
             Inl e \<Rightarrow> Inl e
           | Inr n \<Rightarrow> if F UpdateScanCompleted then Inl DatabaseError else Inr health_score))"

text \<open>
  Step 8: \<open>store.get("total_scans", 0) + 1\<close> needs a number, then the store's row is
  updated.
\<close>

fun is_number :: "json \<Rightarrow> bool" where
  "is_number (JInt i) = True"
| "is_number (JFloat r) = True"
| "is_number (JBool b) = True"
| "is_number _ = False"

definition update_store_stats :: "(scan_call \<Rightarrow> bool) \<Rightarrow> pydict \<Rightarrow> exn + unit" where
  "update_store_stats F store =
     (if \<not> is_number (dict_get store ''total_scans'' (JInt 0)) then Inl TypeError
      else if F UpdateStore then Inl DatabaseError
      else Inr ())"

text \<open>
  Steps 4 to 9, which run once the scan's row exists with the status \<open>processing\<close>.
  The result is what has been written so far and whether the steps raised. Step 9
  (\<open>_update_neighborhood\<close>) swallows every exception and writes to another table.
\<close>

definition scan_stages ::
  "scan_world \<Rightarrow> pydict \<Rightarrow> status list \<times> (string \<times> int) option \<times> string option \<times> (exn + unit)" where
  "scan_stages W store =
     (case vision W of
        None \<Rightarrow> ([Processing], None, None, Inl ProviderError)
      | Some vision_data \<Rightarrow>
          (case save_products (db_fault W) vision_data of
             Inl e \<Rightarrow> ([Processing], None, None, Inl e)
           | Inr _ \<Rightarrow>
               (case run_ai_debate (lib W) (keys W) (agents W) vision_data store
                       (dict_get store ''pincode'' (JStr [])) of
                  Inl e \<Rightarrow> ([Processing], None, None, Inl e)
                | Inr debate_result \<Rightarrow>
                    (case save_rounds (db_fault W) (rounds debate_result) of
                       Inl e \<Rightarrow> ([Processing], None, None, Inl e)
                     | Inr _ \<Rightarrow>
                         (let voice = generate_hindi_voice (tts W) (audio_upload W)
                                        (final_recommendation debate_result)
                          in if db_fault W InsertVoiceNote
                             then ([Processing], None, None, Inl DatabaseError)
                             else
                               case complete_scan (db_fault W) vision_data of
                                 Inl e \<Rightarrow> ([Processing], Some voice, None, Inl e)
                               | Inr health_score \<Rightarrow>
                                   (case update_store_stats (db_fault W) store of
                                      Inl e \<Rightarrow>
                                        ([Processing, Completed], Some voice, Some (fst voice), Inl e)
                                    | Inr _ \<Rightarrow>
                                        ([Processing, Completed], Some voice, Some (fst voice),
                                         Inr ())))))))"

text \<open>
  The endpoint. \<open>HTTPException\<close> (the 404) passes through; every other exception
  reaches the handler, which marks the scan \<open>failed\<close> when \<open>scan_id\<close> is bound, swallowing
  a failure of that update, and answers 500.
\<close>

definition scan_shelf :: "scan_world \<Rightarrow> scan_outcome" where
  "scan_shelf W =
     (let nothing = \<lparr>http = ScanError, status_writes = [], voice_note = None, voice_note_url = None\<rparr>
      in if db_fault W SelectStore then nothing
         else
           case store_found W of
             None \<Rightarrow> nothing\<lparr>http := ScanNotFound\<rparr>
           | Some store \<Rightarrow>
               (case image_upload W of
                  UploadRaises \<Rightarrow> nothing
                | UploadUrl image_url \<Rightarrow>
                    if db_fault W InsertScan then nothing
                    else
                      case scan_stages W store of
                        (ws, v, url, Inr _) \<Rightarrow>
                          \<lparr>http = ScanOk, status_writes = ws, voice_note = v, voice_note_url = url\<rparr>
                      | (ws, v, url, Inl e) \<Rightarrow>
                          \<lparr>http = ScanError,
                           status_writes = ws @ (if db_fault W UpdateScanFailed then [] else [Failed]),
                           voice_note = v, voice_note_url = url\<rparr>))"

subsection \<open>Example scans\<close>




text \<open>
  A scan of the salt shelf in Ravi's store with every language model down (the debate
  answers from its templates), the database up, and a voice stage that works.
\<close>

definition plain_scan :: scan_world where
  "plain_scan =
     \<lparr>lib = pylib_frag, keys = no_keys, agents = all_down, db_fault = (\<lambda>c. False),
      store_found = Some ravi_store,
      image_upload = UploadUrl ''https://res.example/shelf.jpg'',
      vision = Some salt_shelf,
      tts = TtsResponse 200,
      audio_upload = UploadUrl ''https://res.example/note.mp3''\<rparr>"

text \<open>The same scan when the update of the store's statistics (step 8) raises.\<close>

definition store_update_down :: scan_world where
  "store_update_down = plain_scan\<lparr>db_fault := (\<lambda>c. c = UpdateStore)\<rparr>"

text \<open>The same scan when the text-to-speech provider answers 503.\<close>

definition voice_down :: scan_world where
  "voice_down = plain_scan\<lparr>tts := TtsResponse 503\<rparr>"


section \<open>Properties of the Response Normalizer\<close>

lemma clean_text_fenced_example:
  "clean_text (fence @ ''json'' @ [newline] @ ''{\"a\":1}'' @ [newline] @ fence) = ''{\"a\":1}''"
  by code_simp

lemma json_loads_frag_example:
  "json_loads_frag ''{\"a\":1}'' = Some (JObj [(''a'', JInt 1)])"
  by code_simp

text \<open>
  Claim C5, as the code has it. \<open>parse_json\<close> is a total function: every operation of
  \<open>_parse_json\<close> is defined on every string and both calls of \<open>json.loads\<close> stand
  under a bare \<open>except\<close>, so no exception leaves it. With \<open>t' = clean_text t\<close> (the
  input trimmed, every code fence removed, trimmed again): if \<open>t'\<close> parses to a mapping,
  that mapping is returned; if \<open>t'\<close> does not parse and the text from its first opening
  brace to its last closing brace parses to a mapping, that mapping is returned; if
  neither parses, the result is the marker whose \<open>parse_error\<close> is true and whose
  \<open>raw\<close> is the first 500 characters of \<open>t'\<close> (of the cleaned text, not of the
  input, and empty exactly when \<open>t'\<close> is empty). The fenced example of the
  specification is cleaned to \<open>{"a":1}\<close> and so yields what \<open>json.loads\<close> makes of
  that text.
\<close>

theorem parse_json_contract:
  "(json_loads L (clean_text t) = Some (JObj d) \<longrightarrow> parse_json L t = JObj d)
   \<and> (json_loads L (clean_text t) = None \<and> search_braces (clean_text t) = Some m
        \<and> json_loads L m = Some (JObj d) \<longrightarrow> parse_json L t = JObj d)
   \<and> (json_loads L (clean_text t) = None
        \<and> (search_braces (clean_text t) = None
             \<or> (\<exists>m'. search_braces (clean_text t) = Some m' \<and> json_loads L m' = None))
        \<longrightarrow> parse_json L t
              = JObj [(''raw'', JStr (take 500 (clean_text t))), (''parse_error'', JBool True)]
            \<and> dict_get [(''raw'', JStr (take 500 (clean_text t))), (''parse_error'', JBool True)]
                  ''parse_error'' JNull = JBool True
            \<and> length (take 500 (clean_text t)) \<le> 500
            \<and> (take 500 (clean_text t) = [] \<longleftrightarrow> clean_text t = []))
   \<and> (json_loads L ''{\"a\":1}'' = Some (JObj [(''a'', JInt 1)])
        \<longrightarrow> parse_json L (fence @ ''json'' @ [newline] @ ''{\"a\":1}'' @ [newline] @ fence)
              = JObj [(''a'', JInt 1)])"
proof (intro conjI impI)
  assume "json_loads L (clean_text t) = Some (JObj d)"
  then show "parse_json L t = JObj d"
    by (simp add: parse_json_def)
next
  assume "json_loads L (clean_text t) = None \<and> search_braces (clean_text t) = Some m
            \<and> json_loads L m = Some (JObj d)"
  then show "parse_json L t = JObj d"
    by (simp add: parse_json_def)
next
  assume a: "json_loads L (clean_text t) = None
        \<and> (search_braces (clean_text t) = None
             \<or> (\<exists>m'. search_braces (clean_text t) = Some m' \<and> json_loads L m' = None))"
  then show "parse_json L t
      = JObj [(''raw'', JStr (take 500 (clean_text t))), (''parse_error'', JBool True)]"
    by (auto simp: parse_json_def parse_marker_def)
  show "dict_get [(''raw'', JStr (take 500 (clean_text t))), (''parse_error'', JBool True)]
          ''parse_error'' JNull = JBool True"
    by (simp add: dict_get_def)
  show "length (take 500 (clean_text t)) \<le> 500"
    by simp
  show "take 500 (clean_text t) = [] \<longleftrightarrow> clean_text t = []"
    by simp
next
  assume "json_loads L ''{\"a\":1}'' = Some (JObj [(''a'', JInt 1)])"
  then show "parse_json L (fence @ ''json'' @ [newline] @ ''{\"a\":1}'' @ [newline] @ fence)
      = JObj [(''a'', JInt 1)]"
    unfolding parse_json_def Let_def clean_text_fenced_example by simp
qed

theorem parse_json_contract_witness:
  "parse_json pylib_frag (fence @ ''json'' @ [newline] @ ''{\"a\":1}'' @ [newline] @ fence)
     = JObj [(''a'', JInt 1)]
   \<and> parse_json pylib_frag ''{\"a\":1}'' = JObj [(''a'', JInt 1)]
   \<and> parse_json pylib_frag ''Plan: {\"a\":1} done'' = JObj [(''a'', JInt 1)]
   \<and> parse_json pylib_frag ''no plan today''
     = JObj [(''raw'', JStr ''no plan today''), (''parse_error'', JBool True)]"
proof -
  let ?d = "[(''a'', JInt 1)]"
  have ex: "json_loads pylib_frag ''{\"a\":1}'' = Some (JObj ?d)"
    by (simp add: pylib_frag_def json_loads_frag_example)
  have direct: "json_loads pylib_frag (clean_text ''{\"a\":1}'') = Some (JObj ?d)"
    by code_simp
  have inner: "json_loads pylib_frag (clean_text ''Plan: {\"a\":1} done'') = None
      \<and> search_braces (clean_text ''Plan: {\"a\":1} done'') = Some ''{\"a\":1}''
      \<and> json_loads pylib_frag ''{\"a\":1}'' = Some (JObj ?d)"
    by code_simp
  have "json_loads pylib_frag (clean_text ''no plan today'') = None
      \<and> search_braces (clean_text ''no plan today'') = None"
    by code_simp
  then have garbage: "json_loads pylib_frag (clean_text ''no plan today'') = None
      \<and> (search_braces (clean_text ''no plan today'') = None
           \<or> (\<exists>m'. search_braces (clean_text ''no plan today'') = Some m'
                  \<and> json_loads pylib_frag m' = None))"
    by simp
  have kept: "take 500 (clean_text ''no plan today'') = ''no plan today''"
    by code_simp
  from parse_json_contract [where L = pylib_frag and d = ?d] ex
  have "parse_json pylib_frag (fence @ ''json'' @ [newline] @ ''{\"a\":1}'' @ [newline] @ fence)
      = JObj ?d"
    by blast
  moreover from parse_json_contract [where L = pylib_frag and t = "''{\"a\":1}''" and d = ?d]
    direct
  have "parse_json pylib_frag ''{\"a\":1}'' = JObj ?d"
    by blast
  moreover from parse_json_contract [where L = pylib_frag and t = "''Plan: {\"a\":1} done''"
      and d = ?d and m = "''{\"a\":1}''"] inner
  have "parse_json pylib_frag ''Plan: {\"a\":1} done'' = JObj ?d"
    by blast
  moreover from parse_json_contract [where L = pylib_frag and t = "''no plan today''"] garbage
  have "parse_json pylib_frag ''no plan today''
      = JObj [(''raw'', JStr (take 500 (clean_text ''no plan today''))),
              (''parse_error'', JBool True)]"
    by blast
  ultimately show ?thesis
    by (simp only: kept)
qed

text \<open>
  The claim as the specification words it fails on the excerpt: unparseable input need
  not give a non-empty excerpt. On the empty reply \<open>json.loads\<close> raises, no brace is
  found, and the marker carries the empty string.
\<close>

theorem parse_json_empty_excerpt_counterexample:
  "parse_json pylib_frag [] = JObj [(''raw'', JStr []), (''parse_error'', JBool True)]"
  by code_simp

section \<open>Properties of the debate\<close>

lemma py_get_Inl: "(py_get v k d = Inl e) = (\<not> is_dict v \<and> e = AttributeError)"
  by (cases v) auto

lemma py_get_Inr: "py_get v k d = Inr x \<Longrightarrow> is_dict v"
  by (cases v) auto

lemma py_get_dict: "is_dict v \<Longrightarrow> \<exists>x. py_get v k d = Inr x"
  by (cases v) auto

lemma chat_critic_None: "chat_critic L a m dflt reply = None \<longleftrightarrow> chat_fails L reply"
  by (auto simp: chat_critic_def chat_fails_def Let_def py_get_Inl
      split: http_reply.splits option.splits sum.splits dest: py_get_dict py_get_Inr)

lemma flash_attempt_Inl: "(\<exists>e. flash_attempt L P = Inl e) \<longleftrightarrow> gen_fails L (flash_reply P)"
  by (auto simp: flash_attempt_def gen_fails_def Let_def py_get_Inl
      split: gen_reply.splits sum.splits dest: py_get_dict py_get_Inr)

lemma select_urgent_shaped: "list_all is_dict ps \<Longrightarrow> \<exists>us. select_urgent ps = Inr us"
proof (induction ps)
  case Nil
  then show ?case by simp
next
  case (Cons p ps)
  then obtain d where "p = JObj d" by (cases p) auto
  with Cons show ?case by auto
qed

lemma fallback_presenter_shaped:
  "products_shaped vd \<Longrightarrow> \<exists>fb. fallback_presenter vd = Inr (JObj fb)"
  unfolding products_shaped_def fallback_presenter_def dict_get_def
  by (auto split: option.splits json.splits dest: select_urgent_shaped)

lemma all_strs_shaped: "list_all is_str xs \<Longrightarrow> \<exists>ss. all_strs xs = Inr ss"
proof (induction xs)
  case Nil
  then show ?case by simp
next
  case (Cons x xs)
  then obtain s where "x = JStr s" by (cases x) auto
  with Cons show ?case by auto
qed

lemma list_all_take: "list_all Q xs \<Longrightarrow> list_all Q (take n xs)"
  by (auto simp: list_all_iff dest: in_set_takeD)

lemma urgent_join_shaped:
  assumes "urgent_shaped vd"
  shows "\<exists>firsts joined. py_slice 3 (dict_get vd ''top_restock_urgent'' (JList [])) = Inr firsts
           \<and> py_join '', '' firsts = Inr joined"
proof (cases "map_of vd ''top_restock_urgent''")
  case None
  then show ?thesis by (simp add: dict_get_def py_join_def)
next
  case (Some u)
  with assms obtain xs where u: "u = JList xs" and xs: "list_all is_str xs"
    by (auto simp: urgent_shaped_def split: json.splits)
  from xs have "list_all is_str (take 3 xs)" by (rule list_all_take)
  then obtain ss where "all_strs (take 3 xs) = Inr ss"
    using all_strs_shaped by blast
  with Some u show ?thesis by (simp add: dict_get_def py_join_def)
qed

lemma fallback_decider_shaped:
  assumes "urgent_shaped vd"
  shows "\<exists>fb s. fallback_decider L vd st = Inr fb
           \<and> dict_get fb ''final_hindi_text'' (JStr []) = JStr s \<and> s \<noteq> []"
proof -
  from urgent_join_shaped [OF assms] obtain firsts joined where
    "py_slice 3 (dict_get vd ''top_restock_urgent'' (JList [])) = Inr firsts"
    "py_join '', '' firsts = Inr joined" by blast
  then show ?thesis
    by (simp add: fallback_decider_def Let_def dict_get_def)
qed

lemma last_resort_shaped:
  assumes "urgent_shaped vd"
  shows "\<exists>s. last_resort L vd st = Inr s \<and> s \<noteq> []"
proof -
  from urgent_join_shaped [OF assms] obtain firsts joined where
    "py_slice 3 (dict_get vd ''top_restock_urgent'' (JList [])) = Inr firsts"
    "py_join '', '' firsts = Inr joined" by blast
  then show ?thesis
    by (simp add: last_resort_def Let_def)
qed

lemma run_presenter_shaped:
  assumes "products_shaped vd"
  shows "\<exists>p. run_presenter L P vd st = Inr p"
proof -
  from fallback_presenter_shaped [OF assms] obtain fb where "fallback_presenter vd = Inr (JObj fb)"
    by blast
  then show ?thesis
    by (simp add: run_presenter_def split: sum.splits)
qed

lemma run_decider_shaped:
  assumes "urgent_shaped vd"
  shows "\<exists>d. run_decider L P vd st = Inr d
           \<and> ((\<exists>text od. decider_reply P = GenText text \<and> parse_json L text = JObj od
                  \<and> agent_output d = JObj od
                  \<and> final_hindi_text d = Some (dict_get od ''final_hindi_text'' (JStr [])))
               \<or> (\<exists>s. final_hindi_text d = Some (JStr s) \<and> s \<noteq> []))"
proof (cases "decider_attempt L P")
  case (Inl e)
  from fallback_decider_shaped [OF assms, of L st] obtain fb s where
    "fallback_decider L vd st = Inr fb" "dict_get fb ''final_hindi_text'' (JStr []) = JStr s" "s \<noteq> []"
    by blast
  with Inl show ?thesis by (simp add: run_decider_def)
next
  case (Inr d)
  then obtain reply where t: "decider_reply P = GenText reply"
    by (auto simp: decider_attempt_def split: gen_reply.splits)
  with Inr obtain od where "parse_json L reply = JObj od"
    by (cases "parse_json L reply") (auto simp: decider_attempt_def Let_def)
  with Inr t show ?thesis
    by (auto simp: run_decider_def decider_attempt_def Let_def)
qed

lemma final_hindi_shaped:
  assumes "urgent_shaped vd"
  shows "\<exists>h. final_hindi L d vd st = Inr h \<and> truthy h
           \<and> ((\<exists>s. h = JStr s \<and> s \<noteq> [])
               \<or> (case final_hindi_text d of Some x \<Rightarrow> h = x | None \<Rightarrow> False)
               \<or> (case agent_output d of JObj od \<Rightarrow> h = dict_get od ''final_hindi_text'' (JStr []) | _ \<Rightarrow> False))"
proof -
  from last_resort_shaped [OF assms, of L st] obtain s where "last_resort L vd st = Inr s" "s \<noteq> []"
    by blast
  then show ?thesis
    by (cases "agent_output d") (auto simp: final_hindi_def Let_def split: option.splits)
qed





text \<open>
  Claim C4. When each of the three chat-completion candidates is unconfigured or fails
  and the Gemini Flash attempt fails too, the Critic round returns the synthesized
  default: agent \<open>Gemini Flash (Critic Fallback)\<close>, confidence 55, and an output whose
  \<open>confidence_score\<close> is 55. \<open>critic_round\<close> is a total function into results: every
  candidate catches what it raises, so no exception crosses the chain.
\<close>

theorem critic_chain_exhausted:
  assumes "OPENAI_API_KEY S = [] \<or> chat_fails L (gpt4o_reply P)"
    and "GROQ_API_KEY S = [] \<or> chat_fails L (groq_reply P)"
    and "TOGETHER_API_KEY S = [] \<or> chat_fails L (together_reply P)"
    and "gen_fails L (flash_reply P)"
  shows "agent (fst (critic_round L S P)) = ''Gemini Flash (Critic Fallback)''
    \<and> confidence (fst (critic_round L S P)) = JInt 55
    \<and> py_get (agent_output (fst (critic_round L S P))) ''confidence_score'' JNull = Inr (JInt 55)
    \<and> (\<exists>e. fst (critic_round L S P) = default_critic e)"
proof -
  from assms(4) obtain e where "flash_attempt L P = Inl e"
    using flash_attempt_Inl by blast
  moreover have none: "chat_fails L reply \<Longrightarrow> chat_critic L a m dflt reply = None"
    for reply a m dflt
    by (simp add: chat_critic_None)
  ultimately have "fst (critic_round L S P) = default_critic e"
    using assms(1-3)
    by (auto simp: critic_round_def run_critic_gpt4o_def run_critic_groq_def
        run_critic_together_def run_critic_gemini_fallback_def none)
  then show ?thesis
    by (auto simp: default_critic_def dict_get_def)
qed

text \<open>
  Every provider down, once without credentials and once with all three set.
\<close>

theorem critic_chain_exhausted_witness:
  "(OPENAI_API_KEY no_keys = [] \<or> chat_fails pylib_frag (gpt4o_reply all_down))
   \<and> gen_fails pylib_frag (flash_reply all_down)
   \<and> chat_fails pylib_frag (gpt4o_reply all_down)
   \<and> agent (fst (critic_round pylib_frag no_keys all_down)) = ''Gemini Flash (Critic Fallback)''
   \<and> confidence (fst (critic_round pylib_frag no_keys all_down)) = JInt 55
   \<and> agent (fst (critic_round pylib_frag all_keys all_down)) = ''Gemini Flash (Critic Fallback)''
   \<and> confidence (fst (critic_round pylib_frag all_keys all_down)) = JInt 55"
proof -
  have unset: "OPENAI_API_KEY no_keys = []" "GROQ_API_KEY no_keys = []"
    "TOGETHER_API_KEY no_keys = []"
    by (simp_all add: no_keys_def)
  have down: "chat_fails pylib_frag (gpt4o_reply all_down)"
    "chat_fails pylib_frag (groq_reply all_down)"
    "chat_fails pylib_frag (together_reply all_down)"
    "gen_fails pylib_frag (flash_reply all_down)"
    by (simp_all add: all_down_def chat_fails_def gen_fails_def)
  from critic_chain_exhausted [of no_keys pylib_frag all_down] unset down
    critic_chain_exhausted [of all_keys pylib_frag all_down]
  show ?thesis
    by blast
qed

text \<open>
  Claim C1, as the code has it. For vision data of the shape the vision prompt asks for
  (\<open>products\<close> absent or a list of objects, \<open>top_restock_urgent\<close> absent or a list of
  strings), every store record, every setting of the credentials and every behaviour of
  the providers, \<open>run_ai_debate\<close> returns; its rounds are the presenter, the critic and
  the decider, in this order; and the final recommendation is truthy. It is a non-empty
  string, unless the Decider provider itself answered a \<open>final_hindi_text\<close> that is
  truthy and not a string, which is passed on as it is.
\<close>

theorem run_ai_debate_three_rounds:
  assumes "products_shaped vision_data" and "urgent_shaped vision_data"
  shows "\<exists>res. run_ai_debate L S P vision_data store_info pin = Inr res
      \<and> length (rounds res) = 3
      \<and> map r_type (rounds res) = [''presenter'', ''critic'', ''decider'']
      \<and> truthy (final_recommendation res)
      \<and> ((\<exists>s. final_recommendation res = JStr s \<and> s \<noteq> [])
          \<or> (\<exists>reply od. decider_reply P = GenText reply \<and> parse_json L reply = JObj od
                \<and> final_recommendation res = dict_get od ''final_hindi_text'' (JStr [])))"
proof -
  from run_presenter_shaped [OF assms(1)] obtain p where
    p: "run_presenter L P vision_data store_info = Inr p" by blast
  from run_decider_shaped [OF assms(2)] obtain d where
    d: "run_decider L P vision_data store_info = Inr d"
    and shape: "(\<exists>reply od. decider_reply P = GenText reply \<and> parse_json L reply = JObj od
                  \<and> agent_output d = JObj od
                  \<and> final_hindi_text d = Some (dict_get od ''final_hindi_text'' (JStr [])))
               \<or> (\<exists>s. final_hindi_text d = Some (JStr s) \<and> s \<noteq> [])" by blast
  from last_resort_shaped [OF assms(2)] obtain t where
    t: "last_resort L vision_data store_info = Inr t" "t \<noteq> []" by blast
  have "\<exists>h. final_hindi L d vision_data store_info = Inr h \<and> truthy h
      \<and> ((\<exists>s. h = JStr s \<and> s \<noteq> [])
          \<or> (\<exists>reply od. decider_reply P = GenText reply \<and> parse_json L reply = JObj od
                \<and> h = dict_get od ''final_hindi_text'' (JStr [])))"
    using shape
  proof
    assume "\<exists>reply od. decider_reply P = GenText reply \<and> parse_json L reply = JObj od
        \<and> agent_output d = JObj od
        \<and> final_hindi_text d = Some (dict_get od ''final_hindi_text'' (JStr []))"
    then obtain reply od where r: "decider_reply P = GenText reply" "parse_json L reply = JObj od"
      "agent_output d = JObj od"
      "final_hindi_text d = Some (dict_get od ''final_hindi_text'' (JStr []))" by blast
    show ?thesis
    proof (cases "truthy (dict_get od ''final_hindi_text'' (JStr []))")
      case True
      with r show ?thesis by (auto simp: final_hindi_def)
    next
      case False
      with r t show ?thesis by (simp add: final_hindi_def)
    qed
  next
    assume "\<exists>s. final_hindi_text d = Some (JStr s) \<and> s \<noteq> []"
    then show ?thesis by (auto simp: final_hindi_def)
  qed
  then obtain h where h: "final_hindi L d vision_data store_info = Inr h" "truthy h"
    "(\<exists>s. h = JStr s \<and> s \<noteq> [])
      \<or> (\<exists>reply od. decider_reply P = GenText reply \<and> parse_json L reply = JObj od
            \<and> h = dict_get od ''final_hindi_text'' (JStr []))" by blast
  from p d h show ?thesis
    by (auto simp: run_ai_debate_def make_round_def Let_def)
qed

text \<open>
  A shelf with one critical product, every provider down and no credential set.
\<close>

theorem run_ai_debate_three_rounds_witness:
  "products_shaped salt_shelf \<and> urgent_shaped salt_shelf
   \<and> (\<exists>res. run_ai_debate pylib_frag no_keys all_down salt_shelf ravi_store (JStr ''110001'') = Inr res
        \<and> length (rounds res) = 3
        \<and> map r_type (rounds res) = [''presenter'', ''critic'', ''decider'']
        \<and> truthy (final_recommendation res))"
proof -
  have shaped: "products_shaped salt_shelf" "urgent_shaped salt_shelf"
    by (simp_all add: products_shaped_def urgent_shaped_def salt_shelf_def)
  from run_ai_debate_three_rounds [OF shaped, of pylib_frag no_keys all_down ravi_store "JStr ''110001''"]
  obtain res where "run_ai_debate pylib_frag no_keys all_down salt_shelf ravi_store (JStr ''110001'') = Inr res"
    and "length (rounds res) = 3"
    and "map r_type (rounds res) = [''presenter'', ''critic'', ''decider'']"
    and "truthy (final_recommendation res)"
    by auto
  with shaped show ?thesis
    by auto
qed

text \<open>
  The claim does not hold for every vision data. When the vision model lists the urgent
  items as objects instead of names and the Decider provider is down, the template of
  \<open>_fallback_decider\<close> joins values that are not strings; the \<open>TypeError\<close> is raised
  inside the handler of \<open>run_decider\<close> and leaves \<open>run_ai_debate\<close>, which returns
  nothing.
\<close>

theorem run_ai_debate_raises_counterexample:
  "run_ai_debate pylib_frag no_keys all_down
     [(''top_restock_urgent'', JList [JObj [(''name'', JStr ''Tata Salt'')]])] ravi_store
     (JStr ''110001'')
   = Inl TypeError"
  by code_simp


section \<open>Properties of the registration\<close>

lemma pincode_re_iff:
  "pincode_re v \<longleftrightarrow> (\<exists>ds. length ds = 6 \<and> list_all is_digit ds \<and> (v = ds \<or> v = ds @ [newline]))"
proof
  assume "pincode_re v"
  then have "length (take 6 v) = 6 \<and> list_all is_digit (take 6 v)
      \<and> (v = take 6 v \<or> v = take 6 v @ [newline])"
    unfolding pincode_re_def at_dollar_def
    by (metis append_take_drop_id append_Nil2)
  then show "\<exists>ds. length ds = 6 \<and> list_all is_digit ds \<and> (v = ds \<or> v = ds @ [newline])"
    by blast
next
  assume "\<exists>ds. length ds = 6 \<and> list_all is_digit ds \<and> (v = ds \<or> v = ds @ [newline])"
  then show "pincode_re v"
    by (auto simp: pincode_re_def at_dollar_def)
qed

lemma rejected_pincode_writes_nothing:
  assumes "\<not> pincode_re (pincode d)"
  shows "\<exists>errs. post_register raises now today db d = (Http422 errs, db) \<and> InvalidPincode \<in> set errs"
  using assms
  by (auto simp: post_register_def validate_store_register_def validate_pincode_def
      split: sum.splits)

lemma nine_digit_pincode_rejected:
  "post_register raises now today db (ravi_request ''110001234'') = (Http422 [InvalidPincode], db)"
  by (simp add: post_register_def validate_store_register_def validate_pincode_def
      validate_phone_def phone_re_def subscriber_re_def pincode_re_def at_dollar_def
      ravi_request_def is_digit_def is_space_def newline_def)

text \<open>
  Claim C10 says that a postal code that is not exactly six digits is rejected before any
  row is written. The validator accepts six digits followed by a newline: the seven
  characters pass \<open>validate_pincode\<close> unchanged, and the registration writes them into
  \<open>stores\<close> and into \<open>neighborhood_demand\<close>. (The nine-digit example of the claim is
  rejected, and a rejection writes nothing: the two lemmas above.)
\<close>

theorem pincode_trailing_newline_accepted:
  "length (''123456'' @ [newline]) = 7
   \<and> validate_pincode (''123456'' @ [newline]) = Inr (''123456'' @ [newline])
   \<and> map pincode (stores (snd (post_register no_fault 1767607200 ''2026-01-05''
         empty_db (ravi_request (''123456'' @ [newline])))))
       = [''123456'' @ [newline]]
   \<and> map nd_pincode (neighborhood_demand (snd (post_register no_fault 1767607200
         ''2026-01-05'' empty_db (ravi_request (''123456'' @ [newline])))))
       = [''123456'' @ [newline]]"
  by (simp add: post_register_def validate_store_register_def validate_pincode_def
      validate_phone_def phone_re_def subscriber_re_def pincode_re_def at_dollar_def
      ravi_request_def is_digit_def is_space_def newline_def register_store_def
      init_neighborhood_def empty_db_def no_fault_def fresh_id_def Let_def)


section \<open>Properties of the webhook\<close>

text \<open>
  Claim C8, as the code has it. For every inbound event with media (\<open>NumMedia\<close> is a
  number other than zero and \<open>MediaUrl0\<close> is not empty), whatever the body and whether
  or not the audit insert raises, the handler answers the fixed acknowledgment of
  \<open>build_processing_twiml\<close> and schedules exactly one background task, the pipeline
  run for the sender and the media; the only external call it waits for is the
  best-effort insert of the inbound message into \<open>whatsapp_messages\<close>. Vision, debate
  and speech synthesis are not inputs of the handler: they run in the scheduled task
  only, so the acknowledgment cannot depend on their latency or outcome.
\<close>

theorem webhook_fast_ack:
  assumes "num_media f = Some n" and "n \<noteq> 0" and "media_url0 f \<noteq> []"
  shows "response (whatsapp_webhook audit_raises f) = XmlResponse (Acknowledgment build_processing_twiml)
    \<and> scheduled (whatsapp_webhook audit_raises f)
        = [RunWhatsappPipeline (remove_all ''whatsapp:'' (wa_from f)) (media_url0 f)
             (media_content_type0 f)]
    \<and> awaited (whatsapp_webhook audit_raises f) = [InsertWhatsappMessage]"
  using assms by (simp add: whatsapp_webhook_def Let_def)

theorem webhook_fast_ack_witness:
  "num_media shelf_photo_event = Some 1 \<and> media_url0 shelf_photo_event \<noteq> []
   \<and> response (whatsapp_webhook True shelf_photo_event)
       = XmlResponse (Acknowledgment build_processing_twiml)
   \<and> scheduled (whatsapp_webhook True shelf_photo_event)
       = [RunWhatsappPipeline ''+919876543210'' (media_url0 shelf_photo_event) ''image/jpeg'']"
proof -
  have ev: "num_media shelf_photo_event = Some 1" "(1::int) \<noteq> 0"
    "media_url0 shelf_photo_event \<noteq> []"
    by (simp_all add: shelf_photo_event_def)
  have sender: "remove_all ''whatsapp:'' (wa_from shelf_photo_event) = ''+919876543210''"
    by code_simp
  have ctype: "media_content_type0 shelf_photo_event = ''image/jpeg''"
    by (simp add: shelf_photo_event_def)
  from webhook_fast_ack [OF ev, of True] ev sender ctype show ?thesis
    by simp
qed

text \<open>
  The claim as worded fails in its last part: the synchronous path of a media event does
  wait for an operation that is not classification, the insert of the audit row.
\<close>

theorem webhook_sync_insert_counterexample:
  "awaited (whatsapp_webhook False shelf_photo_event) = [InsertWhatsappMessage]"
  by (simp add: whatsapp_webhook_def shelf_photo_event_def Let_def)


section \<open>Properties of the aggregation\<close>

lemma fresh_id_ge: "i \<in> set ids \<Longrightarrow> i < fresh_id ids"
  by (induction ids) (auto simp: fresh_id_def)

lemma fresh_id_new: "fresh_id ids \<notin> set ids"
  using fresh_id_ge by blast

lemma apply_record_key:
  "has_key pin wk (apply_record ps pin cty ids wk now r)"
  by (simp add: has_key_def apply_record_def)

lemma apply_record_id: "nd_id (apply_record ps pin cty ids wk now r) = nd_id r"
  by (simp add: apply_record_def)

lemma apply_record_twice:
  "apply_record ps pin cty ids wk now2 (apply_record ps pin cty ids wk now1 r)
     = (apply_record ps pin cty ids wk now1 r)\<lparr>updated_at := Some now2\<rparr>"
  by (simp add: apply_record_def)

lemma apply_record_idem:
  "apply_record ps pin cty ids wk now (apply_record ps pin cty ids wk now r)
     = apply_record ps pin cty ids wk now r"
  by (simp add: apply_record_def)

lemma filter_key_update:
  assumes "distinct (map nd_id table)" and "e \<in> set table" and "has_key pin wk e"
    and "filter (has_key pin wk) table = [e]" and "\<And>r. has_key pin wk (g r)" and "\<And>r. nd_id (g r) = nd_id r"
  shows "filter (has_key pin wk) (map (\<lambda>r. if nd_id r = nd_id e then g r else r) table) = [g e]"
proof -
  have same: "nd_id r = nd_id e \<longleftrightarrow> r = e" if "r \<in> set table" for r
    using that assms(1,2) by (auto simp: distinct_map inj_on_def)
  have eq: "map (\<lambda>r. if nd_id r = nd_id e then g r else r) table
      = map (\<lambda>r. if r = e then g e else r) table"
    by (rule map_cong) (auto simp: same)
  have "filter (has_key pin wk) (map (\<lambda>r. if r = e then g e else r) table)
      = map (\<lambda>r. if r = e then g e else r) (filter (has_key pin wk) table)"
    using assms(3,5) by (induction table) auto
  with assms(4) have "filter (has_key pin wk) (map (\<lambda>r. if r = e then g e else r) table) = [g e]"
    by simp
  then show ?thesis
    unfolding eq .
qed


lemma aggregate_inserts:
  assumes "filter (has_key pin wk) table = []" and "window_products products now ids \<noteq> []"
  shows "aggregate_pincode no_fault now products pin cty ids wk table
    = table @ [apply_record (window_products products now ids) pin cty ids wk now
                 (blank_row (fresh_id (map nd_id table)) now)]"
  using assms by (simp add: aggregate_pincode_def no_fault_def Let_def)

lemma aggregate_updates:
  assumes "filter (has_key pin wk) table = e # es" and "window_products products now ids \<noteq> []"
  shows "aggregate_pincode no_fault now products pin cty ids wk table
    = map (\<lambda>r. if nd_id r = nd_id e
                then apply_record (window_products products now ids) pin cty ids wk now r
                else r) table"
  using assms by (simp add: aggregate_pincode_def no_fault_def Let_def)

lemma aggregate_empty_window:
  "window_products products now ids = [] \<longrightarrow>
     aggregate_pincode raises now products pin cty ids wk table = table"
  by (simp add: aggregate_pincode_def Let_def)

lemma aggregate_fault:
  "raises SelectProducts \<or> raises SelectExisting \<or> raises WriteRow \<longrightarrow>
     aggregate_pincode raises now products pin cty ids wk table = table"
  by (simp add: aggregate_pincode_def Let_def split: list.split)

text \<open>
  Claim C9, as the code has it. Let no database call of the job raise, let the table
  have distinct ids and at most one row for the key (locality, week), and let both runs
  select the same, non-empty list of products. Then after the first run and after the
  second the table has exactly one row for the key; the second run adds no row and
  changes nothing but \<open>updated_at\<close>, which each run sets to its own clock: every other
  column of every row, the aggregates among them, is the same after both runs. With the
  same clock the second run changes nothing. For every table and every behaviour of the
  database, a run whose window holds no product writes nothing, and so does a run in
  which a database call raises.
\<close>

theorem aggregate_twice:
  assumes ids: "distinct (map nd_id table)"
    and atmost: "length (filter (has_key pin wk) table) \<le> 1"
    and same: "window_products products now2 store_ids = window_products products now1 store_ids"
    and nonempty: "window_products products now1 store_ids \<noteq> []"
  shows "length (filter (has_key pin wk)
            (aggregate_pincode no_fault now1 products pin cty store_ids wk table)) = 1
    \<and> length (filter (has_key pin wk)
            (aggregate_pincode no_fault now2 products pin cty store_ids wk
               (aggregate_pincode no_fault now1 products pin cty store_ids wk table))) = 1
    \<and> length (aggregate_pincode no_fault now2 products pin cty store_ids wk
               (aggregate_pincode no_fault now1 products pin cty store_ids wk table))
        = length (aggregate_pincode no_fault now1 products pin cty store_ids wk table)
    \<and> map (\<lambda>r. r\<lparr>updated_at := None\<rparr>)
          (aggregate_pincode no_fault now2 products pin cty store_ids wk
             (aggregate_pincode no_fault now1 products pin cty store_ids wk table))
        = map (\<lambda>r. r\<lparr>updated_at := None\<rparr>)
            (aggregate_pincode no_fault now1 products pin cty store_ids wk table)
    \<and> (now2 = now1 \<longrightarrow>
          aggregate_pincode no_fault now2 products pin cty store_ids wk
             (aggregate_pincode no_fault now1 products pin cty store_ids wk table)
          = aggregate_pincode no_fault now1 products pin cty store_ids wk table)
    \<and> map updated_at (filter (has_key pin wk)
            (aggregate_pincode no_fault now1 products pin cty store_ids wk table)) = [Some now1]
    \<and> map updated_at (filter (has_key pin wk)
            (aggregate_pincode no_fault now2 products pin cty store_ids wk
               (aggregate_pincode no_fault now1 products pin cty store_ids wk table)))
        = [Some now2]
    \<and> (window_products any_products any_now any_store_ids = [] \<longrightarrow>
          aggregate_pincode raises any_now any_products any_pin any_cty any_store_ids any_wk
             any_table = any_table)
    \<and> (raises SelectProducts \<or> raises SelectExisting \<or> raises WriteRow \<longrightarrow>
          aggregate_pincode raises any_now any_products any_pin any_cty any_store_ids any_wk
             any_table = any_table)"
proof -
  let ?ps = "window_products products now1 store_ids"
  let ?g1 = "apply_record ?ps pin cty store_ids wk now1"
  let ?g2 = "apply_record ?ps pin cty store_ids wk now2"
  let ?t1 = "aggregate_pincode no_fault now1 products pin cty store_ids wk table"
  let ?t2 = "aggregate_pincode no_fault now2 products pin cty store_ids wk ?t1"
  have nonempty2: "window_products products now2 store_ids \<noteq> []"
    using same nonempty by simp
  have twice: "?g2 (?g1 r) = (?g1 r)\<lparr>updated_at := Some now2\<rparr>" for r
    by (rule apply_record_twice)
  have erase: "(?g2 (?g1 r))\<lparr>updated_at := None\<rparr> = (?g1 r)\<lparr>updated_at := None\<rparr>" for r
    by (simp add: twice)
  have stamp: "updated_at (apply_record ps pin cty store_ids wk now r) = Some now" for ps now r
    by (simp add: apply_record_def)
  have empty: "window_products any_products any_now any_store_ids = [] \<longrightarrow>
      aggregate_pincode raises any_now any_products any_pin any_cty any_store_ids any_wk
             any_table = any_table"
    by (rule aggregate_empty_window)
  have fault: "raises SelectProducts \<or> raises SelectExisting \<or> raises WriteRow \<longrightarrow>
      aggregate_pincode raises any_now any_products any_pin any_cty any_store_ids any_wk
             any_table = any_table"
    by (rule aggregate_fault)
  have "length (filter (has_key pin wk) ?t1) = 1
    \<and> length (filter (has_key pin wk) ?t2) = 1
    \<and> length ?t2 = length ?t1
    \<and> map (\<lambda>r. r\<lparr>updated_at := None\<rparr>) ?t2 = map (\<lambda>r. r\<lparr>updated_at := None\<rparr>) ?t1
    \<and> (now2 = now1 \<longrightarrow> ?t2 = ?t1)
    \<and> map updated_at (filter (has_key pin wk) ?t1) = [Some now1]
    \<and> map updated_at (filter (has_key pin wk) ?t2) = [Some now2]"
  proof (cases "filter (has_key pin wk) table")
    case Nil
    let ?new = "?g1 (blank_row (fresh_id (map nd_id table)) now1)"
    have t1: "?t1 = table @ [?new]"
      using Nil nonempty by (rule aggregate_inserts)
    have key1: "filter (has_key pin wk) ?t1 = [?new]"
      using Nil by (simp add: t1 apply_record_key)
    have new_id: "nd_id ?new = fresh_id (map nd_id table)"
      by (simp add: apply_record_id blank_row_def)
    have other: "nd_id r \<noteq> nd_id ?new" if "r \<in> set table" for r
      using that fresh_id_ge [of "nd_id r" "map nd_id table"] by (simp add: new_id)
    have "?t2 = map (\<lambda>r. if nd_id r = nd_id ?new then ?g2 r else r) ?t1"
      using aggregate_updates [OF key1 nonempty2, of cty] same by simp
    also have "\<dots> = map (\<lambda>r. if nd_id r = nd_id ?new then ?g2 r else r) table @ [?g2 ?new]"
      by (simp add: t1)
    also have "map (\<lambda>r. if nd_id r = nd_id ?new then ?g2 r else r) table = table"
      by (rule map_idI) (simp add: other)
    finally have t2: "?t2 = table @ [?g2 ?new]" .
    have key2: "filter (has_key pin wk) ?t2 = [?g2 ?new]"
      using Nil by (simp only: t2) (simp add: apply_record_key)
    have "length ?t2 = length ?t1"
      by (simp only: t2) (simp add: t1)
    moreover have "map (\<lambda>r. r\<lparr>updated_at := None\<rparr>) ?t2 = map (\<lambda>r. r\<lparr>updated_at := None\<rparr>) ?t1"
      by (simp only: t2) (simp add: t1 erase)
    moreover have "now2 = now1 \<longrightarrow> ?t2 = ?t1"
      by (simp only: t2) (simp add: t1 apply_record_idem)
    ultimately show ?thesis
      using key1 key2 by (simp add: stamp)
  next
    case (Cons e es)
    with atmost have one: "filter (has_key pin wk) table = [e]"
      by simp
    then have "e \<in> set (filter (has_key pin wk) table)"
      by simp
    then have e_in: "e \<in> set table" and e_key: "has_key pin wk e"
      by simp_all
    have t1: "?t1 = map (\<lambda>r. if nd_id r = nd_id e then ?g1 r else r) table"
      using one nonempty by (rule aggregate_updates)
    have key1: "filter (has_key pin wk) ?t1 = [?g1 e]"
      unfolding t1
      by (rule filter_key_update [OF ids e_in e_key one]) (simp_all add: apply_record_key apply_record_id)
    have ids1: "map nd_id ?t1 = map nd_id table"
      by (simp add: t1 apply_record_id cong: map_cong)
    have "?g1 e \<in> set (filter (has_key pin wk) ?t1)"
      by (simp only: key1) simp
    then have e1_in: "?g1 e \<in> set ?t1"
      by simp
    have "?t2 = map (\<lambda>r. if nd_id r = nd_id (?g1 e) then ?g2 r else r) ?t1"
      using aggregate_updates [OF key1 nonempty2, of cty] same by simp
    then have t2: "?t2 = map (\<lambda>r. if nd_id r = nd_id e then ?g2 r else r) ?t1"
      by (simp add: apply_record_id)
    have key2: "filter (has_key pin wk) ?t2 = [?g2 (?g1 e)]"
      unfolding t2
      using filter_key_update [of ?t1 "?g1 e" pin wk ?g2] ids ids1 e1_in key1
      by (simp add: apply_record_key apply_record_id)
    have "?t2 = map (\<lambda>r. if nd_id r = nd_id e then ?g2 r else r)
                  (map (\<lambda>r. if nd_id r = nd_id e then ?g1 r else r) table)"
      by (simp only: t2) (simp only: t1)
    also have "\<dots> = map (\<lambda>r. if nd_id r = nd_id e then ?g2 (?g1 r) else r) table"
      by (simp add: apply_record_id cong: if_cong)
    finally have t2': "?t2 = map (\<lambda>r. if nd_id r = nd_id e then ?g2 (?g1 r) else r) table" .
    have "map (\<lambda>r. r\<lparr>updated_at := None\<rparr>) ?t2 = map (\<lambda>r. r\<lparr>updated_at := None\<rparr>) ?t1"
      by (simp only: t2') (simp add: t1 erase cong: if_cong)
    moreover have "now2 = now1 \<longrightarrow> ?t2 = ?t1"
      by (simp only: t2') (simp add: t1 apply_record_idem cong: if_cong)
    moreover have "length ?t2 = length ?t1"
      by (simp only: t2') (simp add: t1)
    ultimately show ?thesis
      using key1 key2 by (simp add: stamp)
  qed
  with empty fault show ?thesis
    by blast
qed

theorem aggregate_twice_witness:
  "distinct (map nd_id ([] :: neighborhood_row list))
   \<and> window_products one_critical_salt 1767607200 [1] \<noteq> []
   \<and> length (filter (has_key ''110001'' ''2026-01-05'')
        (aggregate_pincode no_fault 1767693600 one_critical_salt ''110001'' ''Delhi'' [1]
           ''2026-01-05''
           (aggregate_pincode no_fault 1767607200 one_critical_salt ''110001'' ''Delhi'' [1]
              ''2026-01-05'' []))) = 1
   \<and> map (\<lambda>r. r\<lparr>updated_at := None\<rparr>)
        (aggregate_pincode no_fault 1767693600 one_critical_salt ''110001'' ''Delhi'' [1]
           ''2026-01-05''
           (aggregate_pincode no_fault 1767607200 one_critical_salt ''110001'' ''Delhi'' [1]
              ''2026-01-05'' []))
      = map (\<lambda>r. r\<lparr>updated_at := None\<rparr>)
          (aggregate_pincode no_fault 1767607200 one_critical_salt ''110001'' ''Delhi'' [1]
             ''2026-01-05'' [])
   \<and> map updated_at (filter (has_key ''110001'' ''2026-01-05'')
        (aggregate_pincode no_fault 1767693600 one_critical_salt ''110001'' ''Delhi'' [1]
           ''2026-01-05''
           (aggregate_pincode no_fault 1767607200 one_critical_salt ''110001'' ''Delhi'' [1]
              ''2026-01-05'' []))) = [Some 1767693600]
   \<and> window_products [] 1767607200 [1] = []
   \<and> aggregate_pincode no_fault 1767607200 [] ''110001'' ''Delhi'' [1] ''2026-01-05'' [] = []"
proof -
  have ids: "distinct (map nd_id ([] :: neighborhood_row list))"
    by simp
  have atmost: "length (filter (has_key ''110001'' ''2026-01-05'') []) \<le> 1"
    by simp
  have w1: "window_products one_critical_salt 1767607200 [1] = one_critical_salt"
    by (simp add: window_products_def one_critical_salt_def seven_days_def)
  have w2: "window_products one_critical_salt 1767693600 [1] = one_critical_salt"
    by (simp add: window_products_def one_critical_salt_def seven_days_def)
  have same: "window_products one_critical_salt 1767693600 [1]
      = window_products one_critical_salt 1767607200 [1]"
    by (simp only: w1 w2)
  have nonempty: "window_products one_critical_salt 1767607200 [1] \<noteq> []"
    unfolding w1 by (simp add: one_critical_salt_def)
  have none: "window_products [] 1767607200 [1] = []"
    by (simp add: window_products_def)
  from aggregate_twice [OF ids atmost same nonempty, where cty = "''Delhi''"
      and any_products = "[]" and any_now = 1767607200 and any_store_ids = "[1]" and raises = no_fault
      and any_pin = "''110001''" and any_cty = "''Delhi''" and any_wk = "''2026-01-05''" and any_table = "[]"]
    ids nonempty none
  show ?thesis
    by simp
qed

text \<open>
  The claim as worded fails in two ways. A locality whose stores have no product in the
  window gets no row at all, however often the job runs; and the second run at a later
  clock leaves a row whose \<open>updated_at\<close> differs from the one after the first run.
\<close>

theorem aggregate_twice_counterexample:
  "aggregate_pincode no_fault 1767693600 [] ''110001'' ''Delhi'' [1] ''2026-01-05''
     (aggregate_pincode no_fault 1767607200 [] ''110001'' ''Delhi'' [1] ''2026-01-05'' []) = []
   \<and> map updated_at
       (aggregate_pincode no_fault 1767607200 one_critical_salt ''110001'' ''Delhi'' [1]
          ''2026-01-05'' []) = [Some 1767607200]
   \<and> map updated_at
       (aggregate_pincode no_fault 1767693600 one_critical_salt ''110001'' ''Delhi'' [1]
          ''2026-01-05''
          (aggregate_pincode no_fault 1767607200 one_critical_salt ''110001'' ''Delhi'' [1]
             ''2026-01-05'' [])) = [Some 1767693600]"
  by (simp add: aggregate_pincode_def no_fault_def window_products_def one_critical_salt_def
      seven_days_def Let_def has_key_def apply_record_def blank_row_def fresh_id_def)


section \<open>Properties of the double-precision arithmetic\<close>



















section \<open>Properties of the scan pipeline\<close>







lemma generate_hindi_voice_fails:
  "voice_fails reply upload \<Longrightarrow> generate_hindi_voice reply upload hindi_text = ([], 0)"
  by (cases reply) (auto simp: generate_hindi_voice_def split: json.split upload_reply.split)

lemma scan_stages_voice:
  "fst (scan_stages (W\<lparr>tts := t, audio_upload := u\<rparr>) store) = fst (scan_stages W store)"
  "snd (snd (snd (scan_stages (W\<lparr>tts := t, audio_upload := u\<rparr>) store)))
     = snd (snd (snd (scan_stages W store)))"
  by (simp_all add: scan_stages_def Let_def split: option.split sum.split)

lemma scan_shelf_voice:
  "status_writes (scan_shelf (W\<lparr>tts := t, audio_upload := u\<rparr>)) = status_writes (scan_shelf W)"
  "http (scan_shelf (W\<lparr>tts := t, audio_upload := u\<rparr>)) = http (scan_shelf W)"
proof -
  have "status_writes (scan_shelf (W\<lparr>tts := t, audio_upload := u\<rparr>)) = status_writes (scan_shelf W)
      \<and> http (scan_shelf (W\<lparr>tts := t, audio_upload := u\<rparr>)) = http (scan_shelf W)"
  proof (cases "store_found W")
    case None
    then show ?thesis by (simp add: scan_shelf_def Let_def)
  next
    case (Some store)
    obtain ws v url r where s: "scan_stages W store = (ws, v, url, r)"
      by (cases "scan_stages W store") auto
    obtain ws' v' url' r' where
      s': "scan_stages (W\<lparr>tts := t, audio_upload := u\<rparr>) store = (ws', v', url', r')"
      by (cases "scan_stages (W\<lparr>tts := t, audio_upload := u\<rparr>) store") auto
    from scan_stages_voice [where W = W and t = t and u = u and store = store] s s' have same: "ws' = ws" "r' = r"
      by simp_all
    show ?thesis
      using Some s s' same
      by (simp add: scan_shelf_def Let_def split: upload_reply.split sum.split)
  qed
  then show "status_writes (scan_shelf (W\<lparr>tts := t, audio_upload := u\<rparr>)) = status_writes (scan_shelf W)"
    and "http (scan_shelf (W\<lparr>tts := t, audio_upload := u\<rparr>)) = http (scan_shelf W)"
    by simp_all
qed

lemma scan_stages_ok:
  assumes "scan_stages W store = (ws, v, url, Inr x)"
  shows "ws = [Processing, Completed]
    \<and> (\<exists>hindi_text. v = Some (generate_hindi_voice (tts W) (audio_upload W) hindi_text)
          \<and> url = Some (fst (generate_hindi_voice (tts W) (audio_upload W) hindi_text)))"
  using assms
  by (auto simp: scan_stages_def Let_def split: option.splits sum.splits if_splits)

lemma scan_shelf_ok:
  assumes "http (scan_shelf W) = ScanOk"
  shows "status_writes (scan_shelf W) = [Processing, Completed]
    \<and> (\<exists>hindi_text. voice_note (scan_shelf W)
              = Some (generate_hindi_voice (tts W) (audio_upload W) hindi_text)
          \<and> voice_note_url (scan_shelf W)
              = Some (fst (generate_hindi_voice (tts W) (audio_upload W) hindi_text)))"
proof (cases "store_found W")
  case None
  with assms show ?thesis by (simp add: scan_shelf_def Let_def split: if_splits)
next
  case (Some store)
  obtain ws v url r where s: "scan_stages W store = (ws, v, url, r)"
    by (cases "scan_stages W store") auto
  show ?thesis
  proof (cases r)
    case (Inl e)
    with assms Some s show ?thesis
      by (simp add: scan_shelf_def Let_def split: if_splits upload_reply.splits)
  next
    case (Inr x)
    from scan_stages_ok [OF s [unfolded Inr]] obtain hindi_text where
      w: "ws = [Processing, Completed]"
      "v = Some (generate_hindi_voice (tts W) (audio_upload W) hindi_text)"
      "url = Some (fst (generate_hindi_voice (tts W) (audio_upload W) hindi_text))"
      by blast
    have out: "status_writes (scan_shelf W) = ws" "voice_note (scan_shelf W) = v"
      "voice_note_url (scan_shelf W) = url"
      using assms Some s Inr
      by (simp_all add: scan_shelf_def Let_def split: if_splits upload_reply.splits)
    show ?thesis
      unfolding out w by blast
  qed
qed

text \<open>
  Claim C7. When the voice stage fails (the provider raises, answers a status other
  than 200, or the upload of the audio raises), \<open>generate_hindi_voice\<close> returns the empty
  reference and the duration 0 for every text, and raises nothing; the HTTP answer and
  the statuses written to the scan's row are those of the same scan with any other
  behaviour \<open>t\<close>, \<open>u\<close> of the voice stage; and a scan that is answered 200 with that other
  behaviour is answered 200 with the failing one, its row is marked \<open>completed\<close> and
  never \<open>failed\<close>, and the voice reference saved is empty with the duration 0.
\<close>

theorem voice_failure_absorbed:
  assumes "voice_fails (tts W) (audio_upload W)"
  shows "generate_hindi_voice (tts W) (audio_upload W) hindi_text = ([], 0)
    \<and> http (scan_shelf W) = http (scan_shelf (W\<lparr>tts := t, audio_upload := u\<rparr>))
    \<and> status_writes (scan_shelf W) = status_writes (scan_shelf (W\<lparr>tts := t, audio_upload := u\<rparr>))
    \<and> (http (scan_shelf (W\<lparr>tts := t, audio_upload := u\<rparr>)) = ScanOk \<longrightarrow>
         http (scan_shelf W) = ScanOk
         \<and> status_writes (scan_shelf W) = [Processing, Completed]
         \<and> voice_note (scan_shelf W) = Some ([], 0)
         \<and> voice_note_url (scan_shelf W) = Some [])"
proof -
  have voice: "generate_hindi_voice (tts W) (audio_upload W) x = ([], 0)" for x
    using assms by (rule generate_hindi_voice_fails)
  have ok: "status_writes (scan_shelf W) = [Processing, Completed]
      \<and> voice_note (scan_shelf W) = Some ([], 0) \<and> voice_note_url (scan_shelf W) = Some []"
    if "http (scan_shelf W) = ScanOk"
    using scan_shelf_ok [OF that] by (auto simp: voice)
  show ?thesis
    using ok by (simp add: voice scan_shelf_voice)
qed

text \<open>
  The salt-shelf scan with the text-to-speech provider answering 503: the same scan with
  a working voice stage is answered 200, so this one is, too.
\<close>

theorem voice_failure_absorbed_witness:
  "voice_fails (tts voice_down) (audio_upload voice_down)
   \<and> http (scan_shelf voice_down) = ScanOk
   \<and> status_writes (scan_shelf voice_down) = [Processing, Completed]
   \<and> voice_note (scan_shelf voice_down) = Some ([], 0)
   \<and> voice_note_url (scan_shelf voice_down) = Some []"
proof -
  have fails: "voice_fails (tts voice_down) (audio_upload voice_down)"
    by (simp add: voice_down_def plain_scan_def)
  have same: "voice_down\<lparr>tts := TtsResponse 200, audio_upload := UploadUrl ''https://res.example/note.mp3''\<rparr>
      = plain_scan"
    by (simp add: voice_down_def plain_scan_def)
  have plain: "http (scan_shelf plain_scan) = ScanOk"
    by code_simp
  from voice_failure_absorbed [OF fails, where t = "TtsResponse 200"
      and u = "UploadUrl ''https://res.example/note.mp3''" and hindi_text = JNull]
  have "http (scan_shelf plain_scan) = ScanOk \<longrightarrow>
         http (scan_shelf voice_down) = ScanOk
         \<and> status_writes (scan_shelf voice_down) = [Processing, Completed]
         \<and> voice_note (scan_shelf voice_down) = Some ([], 0)
         \<and> voice_note_url (scan_shelf voice_down) = Some []"
    unfolding same by blast
  with plain fails show ?thesis
    by blast
qed

lemma scan_stages_writes:
  "fst (scan_stages W store) = [Processing] \<or> fst (scan_stages W store) = [Processing, Completed]"
  by (simp add: scan_stages_def Let_def split: option.split sum.split)

lemma scan_status_sequences:
  "status_writes (scan_shelf W)
     \<in> {[], [Processing], [Processing, Failed], [Processing, Completed],
        [Processing, Completed, Failed]}"
proof (cases "store_found W")
  case None
  then show ?thesis by (simp add: scan_shelf_def Let_def)
next
  case (Some store)
  obtain ws v url r where s: "scan_stages W store = (ws, v, url, r)"
    by (cases "scan_stages W store") auto
  from scan_stages_writes [of W store] s have "ws = [Processing] \<or> ws = [Processing, Completed]"
    by simp
  with Some s show ?thesis
    by (auto simp: scan_shelf_def Let_def split: upload_reply.split sum.split)
qed

text \<open>
  Claim C2 says that a scan marked \<open>completed\<close> is never marked \<open>failed\<close> later. The
  update of the store's statistics (step 8) runs after the scan's row has been marked
  \<open>completed\<close> and inside the same \<open>try\<close>: when it raises, the handler marks the same row
  \<open>failed\<close> and the request is answered 500. The status column of the row is written
  three times. (The lemma above lists the sequences of writes that can occur; this is
  the only one with two final statuses.)
\<close>

theorem scan_completed_then_failed:
  "status_writes (scan_shelf store_update_down) = [Processing, Completed, Failed]
   \<and> http (scan_shelf store_update_down) = ScanError"
  by code_simp

end
